theory Spec2Isabelle
  imports Main "HOL-Library.Sublist"
begin

section \<open>The redirect handler of astro.new\<close>

text \<open>
  A shallow embedding of the request handler (\<^verbatim>\<open>src/unnamed/part_000\<close>). The handler
  is asynchronous TypeScript that keeps two module-level caches and talks to the GitHub
  API. Here every function takes the state of the process (the two caches, the outbound
  requests made so far, the console) and returns its result together with the new state;
  what the network answers is a parameter (\<open>world\<close>), and it may differ from one call
  to the next. A thrown \<^verbatim>\<open>Error\<close> or a rejected promise is the left injection of
  a sum. Each call runs to completion before the next one starts: overlapping in-flight
  requests are outside this model.

  Strings are \<^typ>\<open>string\<close>; every string operation of the handler (\<^verbatim>\<open>split\<close>,
  \<^verbatim>\<open>indexOf\<close>, \<^verbatim>\<open>join\<close>, comparison, concatenation) works element by element, so
  the size of a character plays no part.
\<close>

subsection \<open>Data\<close>

text \<open>
  \<^verbatim>\<open>type CachedExample\<close>, lines 3 to 10. The type declares \<^verbatim>\<open>github\<close> a
  string, but the only value ever stored there is \<^verbatim>\<open>example.html_url\<close> (line 55),
  which nothing checks: the field holds \<open>None\<close> when the upstream element had no
  string there. The other URLs are built by template literals and are strings.
\<close>

record CachedExample =
  name :: string
  github :: "string option"
  netlify :: string
  stackblitz :: string
  codesandbox :: string
  gitpod :: string

text \<open>
  An element of the upstream directory listing. The cast in lines 36 to 40 types it
  \<^verbatim>\<open>{ name: string; size: number; html_url: string }\<close>, but a cast is erased at
  run time and the parsed JSON is not checked. The only thing the handler does with
  \<^verbatim>\<open>size\<close> is the comparison \<^verbatim>\<open>size > 0\<close>, so the number is an \<^typ>\<open>int\<close>; a
  negative one is a number like any other. \<^verbatim>\<open>html_url\<close> is copied as it is into
  the template entry, so it is \<open>None\<close> when the element has no string under that
  key (the key is absent, or holds \<^verbatim>\<open>null\<close>).
\<close>

record dir_entry =
  name_u :: string
  size_u :: int
  html_url :: "string option"

text \<open>
  What \<^verbatim>\<open>res.json()\<close> resolves to. The handler tells three kinds of value apart:
  \<^verbatim>\<open>null\<close>, an array (\<^verbatim>\<open>Array.isArray\<close>) and everything else, which is carried
  as its text.
\<close>

datatype json_value = JNull | JArray "dir_entry list" | JOther string

text \<open>A promise that has settled.\<close>

datatype 'a promise = Rejected | Resolved 'a

record response =
  status :: nat
  json :: "json_value promise"

record request =
  url :: string
  headers :: "(string \<times> string) list"

text \<open>
  The environment of one call: \<^verbatim>\<open>process.env.VITE_GITHUB_TOKEN\<close> (\<open>None\<close> when
  undefined) and what \<^verbatim>\<open>fetch\<close> answers to a request.
\<close>

record world =
  VITE_GITHUB_TOKEN :: "string option"
  fetch :: "request \<Rightarrow> response promise"

text \<open>
  A thrown value: \<^verbatim>\<open>new Error(message)\<close>, the \<^verbatim>\<open>TypeError\<close> of a
  \<^verbatim>\<open>fetch\<close> that could not reach the network, the \<^verbatim>\<open>SyntaxError\<close> of a body
  that is not JSON.
\<close>

datatype error = Error string | TypeError | SyntaxError

datatype console_entry =
    Warn string
  | ErrorPayload string json_value
  | ErrorThrown error

text \<open>
  The process: \<^verbatim>\<open>examplesCache\<close> (line 12), \<^verbatim>\<open>releaseCache\<close> (line 68), the
  outbound requests in the order they were sent, and the console.
\<close>

record state =
  examplesCache :: "string \<rightharpoonup> CachedExample list"
  releaseCache :: "string \<rightharpoonup> json_value"
  requests :: "request list"
  console :: "console_entry list"

definition init_state :: state where
  "init_state =
     \<lparr>examplesCache = Map.empty, releaseCache = Map.empty, requests = [], console = []\<rparr>"

text \<open>The object \<^verbatim>\<open>value\<close> that \<^verbatim>\<open>parseReq\<close> returns, lines 138 to 142.\<close>

record parsed =
  ref :: string
  template :: string
  platform :: string

text \<open>
  What the handler reads of its \<^verbatim>\<open>APIContext\<close>: \<^verbatim>\<open>context.url.pathname\<close>,
  \<^verbatim>\<open>context.url.searchParams.get("on")\<close> (\<open>None\<close> for \<^verbatim>\<open>null\<close>) and
  \<^verbatim>\<open>context.params.rest\<close> (\<open>None\<close> for \<^verbatim>\<open>undefined\<close>).
\<close>

record APIContext =
  pathname :: string
  searchParams_on :: "string option"
  rest :: "string option"

text \<open>
  What the handler returns: \<^verbatim>\<open>context.redirect(target)\<close>, where the target is
  \<open>None\<close> when the expression does not evaluate to a string (it is
  \<^verbatim>\<open>undefined\<close>), or \<^verbatim>\<open>new Response(body, { status })\<close>.
\<close>

datatype http_result = Redirect "string option" | Response string nat

subsection \<open>String operations of the runtime\<close>

text \<open>\<^verbatim>\<open>Array.prototype.join\<close>.\<close>

fun join :: "string \<Rightarrow> string list \<Rightarrow> string" where
  "join sep [] = []"
| "join sep [x] = x"
| "join sep (x # y # ys) = x @ sep @ join sep (y # ys)"

text \<open>
  \<^verbatim>\<open>String.prototype.split\<close> with a separator of one character: the string is cut at
  every occurrence of the separator.
\<close>

fun split :: "char \<Rightarrow> string \<Rightarrow> string list" where
  "split c [] = [[]]"
| "split c (x # xs) =
     (if x = c then [] # split c xs
      else (case split c xs of [] \<Rightarrow> [[x]] | y # ys \<Rightarrow> (x # y) # ys))"

text \<open>\<^verbatim>\<open>.replace(/^\//, "")\<close>: one leading slash is removed.\<close>

fun replace_leading_slash :: "string \<Rightarrow> string" where
  "replace_leading_slash (x # xs) = (if x = CHR ''/'' then xs else x # xs)"
| "replace_leading_slash [] = []"

text \<open>
  \<^verbatim>\<open>example[platform]\<close>: the property of a \<^verbatim>\<open>CachedExample\<close> under a key that is
  computed at run time; \<open>None\<close> is \<^verbatim>\<open>undefined\<close>, for a key that is none of the
  object's own, or for \<^verbatim>\<open>github\<close> when that field holds no string.
\<close>

definition property :: "CachedExample \<Rightarrow> string \<Rightarrow> string option" where
  "property example key =
     (if key = ''name'' then Some (name example)
      else if key = ''github'' then github example
      else if key = ''netlify'' then Some (netlify example)
      else if key = ''stackblitz'' then Some (stackblitz example)
      else if key = ''codesandbox'' then Some (codesandbox example)
      else if key = ''gitpod'' then Some (gitpod example)
      else None)"

subsection \<open>The listing cache: \<^verbatim>\<open>getExamples\<close>, lines 14 to 66\<close>

text \<open>
  The callback of \<^verbatim>\<open>flatMap\<close>, lines 50 to 61: an empty array for an entry whose
  size is greater than zero, the template entry otherwise (\<^verbatim>\<open>flatMap\<close> appends
  an object that is not an array as one element).
\<close>

definition flatMap_callback :: "string \<Rightarrow> dir_entry \<Rightarrow> CachedExample list" where
  "flatMap_callback ref' example =
     (if size_u example > 0 then []
      else [\<lparr>name = name_u example,
             github = html_url example,
             netlify = ''https://astro.build'',
             stackblitz = ''https://stackblitz.com/github/withastro/astro/tree/''
               @ ref' @ ''/examples/'' @ name_u example,
             codesandbox = ''https://codesandbox.io/p/sandbox/github/withastro/astro/tree/''
               @ ref' @ ''/examples/'' @ name_u example,
             gitpod = ''https://gitpod.io/#https://github.com/withastro/astro/tree/''
               @ ref' @ ''/examples/'' @ name_u example\<rparr>])"

definition getExamples ::
  "world \<Rightarrow> string \<Rightarrow> state \<Rightarrow> (error + CachedExample list) \<times> state" where
  "getExamples w ref' s =
     (case examplesCache s ref' of
        Some existing \<Rightarrow> (Inr existing, s)
      | None \<Rightarrow>
          let hs = [(''Accept'', ''application/vnd.github.v3+json'')];
              (hs, s) =
                (case VITE_GITHUB_TOKEN w of
                   None \<Rightarrow>
                     (hs, s\<lparr>console := console s @
                        [Warn ''VITE_GITHUB_TOKEN is undefined. You may run into rate-limiting issues.'']\<rparr>)
                 | Some token \<Rightarrow> (hs @ [(''Authorization'', ''token '' @ token)], s));
              req = \<lparr>url = ''https://api.github.com/repos/withastro/astro/contents/examples?ref='' @ ref',
                     headers = hs\<rparr>;
              s = s\<lparr>requests := requests s @ [req]\<rparr>
          in (case fetch w req of
                Rejected \<Rightarrow> (Inl TypeError, s)
              | Resolved examplesResponse \<Rightarrow>
                  (case json examplesResponse of
                     Rejected \<Rightarrow> (Inl SyntaxError, s)
                   | Resolved examples \<Rightarrow>
                       (case examples of
                          JArray entries \<Rightarrow>
                            let values = concat (map (flatMap_callback ref') entries)
                            in (Inr values, s\<lparr>examplesCache := (examplesCache s)(ref' \<mapsto> values)\<rparr>)
                        | _ \<Rightarrow>
                            (Inl (Error ''Unable to fetch templates from GitHub''),
                             s\<lparr>console := console s @
                               [ErrorPayload ''Unable to fetch templates from GitHub. Expected array, got:''
                                  examples]\<rparr>)))))"

subsection \<open>The release cache: \<^verbatim>\<open>getRelease\<close>, lines 69 to 95\<close>

definition getRelease :: "world \<Rightarrow> string \<Rightarrow> state \<Rightarrow> (error + json_value) \<times> state" where
  "getRelease w ref' s =
     (case releaseCache s ref' of
        Some cached \<Rightarrow> (Inr cached, s)
      | None \<Rightarrow>
          let hs = [(''Accept'', ''application/vnd.github.v3+json'')];
              (hs, s) =
                (case VITE_GITHUB_TOKEN w of
                   None \<Rightarrow>
                     (hs, s\<lparr>console := console s @
                        [Warn ''VITE_GITHUB_TOKEN is undefined. You may run into rate-limiting issues.'']\<rparr>)
                 | Some token \<Rightarrow> (hs @ [(''Authorization'', ''token '' @ token)], s));
              req = \<lparr>url = ''https://api.github.com/repos/withastro/astro/releases/tags/astro@'' @ ref',
                     headers = hs\<rparr>;
              s = s\<lparr>requests := requests s @ [req]\<rparr>
          in (case fetch w req of
                Rejected \<Rightarrow> (Inl TypeError, s)
              | Resolved res \<Rightarrow>
                  (case (if status res = 200 then json res else Resolved JNull) of
                     Rejected \<Rightarrow> (Inl SyntaxError, s)
                   | Resolved release \<Rightarrow>
                       (Inr release, s\<lparr>releaseCache := (releaseCache s)(ref' \<mapsto> release)\<rparr>))))"

subsection \<open>\<^verbatim>\<open>validateRef\<close>, lines 97 to 110\<close>

definition validateRef :: "world \<Rightarrow> string \<Rightarrow> state \<Rightarrow> (error + bool) \<times> state" where
  "validateRef w name' s =
     (if name' = ''next'' \<or> name' = ''latest'' then (Inr True, s)
      else (case getRelease w name' s of
              (Inl e, s) \<Rightarrow> (Inl e, s)
            | (Inr release, s) \<Rightarrow>
                if release \<noteq> JNull then (Inr True, s)
                else (Inl (Error (''Invalid version '' @ [CHR 0x22] @ name' @ [CHR 0x22]
                        @ ''! Supported versions are '' @ [CHR 0x22] @ ''next'' @ [CHR 0x22]
                        @ '', '' @ [CHR 0x22] @ ''latest'' @ [CHR 0x22]
                        @ '', or any <a href='' @ [CHR 0x22]
                        @ ''https://github.com/withastro/astro/releases?q=astro%40'' @ [CHR 0x22]
                        @ ''>GitHub release</a>.'')), s)))"

subsection \<open>\<^verbatim>\<open>PLATFORMS\<close> and \<^verbatim>\<open>isPlatform\<close>, lines 113 to 122\<close>

text \<open>A \<^verbatim>\<open>Set\<close> keeps its elements in the order they were inserted.\<close>

definition PLATFORMS :: "string list" where
  "PLATFORMS = [''stackblitz'', ''codesandbox'', ''netlify'', ''github'', ''gitpod'']"

definition isPlatform :: "string \<Rightarrow> bool" where
  "isPlatform name' = (name' \<in> set PLATFORMS)"

subsection \<open>\<^verbatim>\<open>parseReq\<close>, lines 124 to 161\<close>

text \<open>Line 126: \<^verbatim>\<open>context.params.rest?.replace(/^\//, "") ?? ""\<close>.\<close>

definition path_of :: "APIContext \<Rightarrow> string" where
  "path_of ctx = (case rest ctx of None \<Rightarrow> [] | Some r \<Rightarrow> replace_leading_slash r)"

text \<open>
  The destructuring \<^verbatim>\<open>const [template, ref] = path.split("@")\<close> takes the first two
  pieces; a piece that is not there is \<^verbatim>\<open>undefined\<close>, which \<^verbatim>\<open>!ref\<close> treats like
  the empty string.
\<close>

definition parseReq :: "world \<Rightarrow> APIContext \<Rightarrow> state \<Rightarrow> (error + parsed) \<times> state" where
  "parseReq w ctx s =
     (let platform' = (case searchParams_on ctx of None \<Rightarrow> ''stackblitz'' | Some p \<Rightarrow> p);
          path = path_of ctx
      in if \<not> isPlatform platform' then
           (Inl (Error (''Unsupported '' @ [CHR 0x22] @ ''on'' @ [CHR 0x22]
              @ '' query! Supported platforms are:'' @ [CHR 0x0A] @ ''  - ''
              @ join ([CHR 0x0A] @ ''  - '') (map (\<lambda>x. x) PLATFORMS))), s)
         else
           let value = \<lparr>ref = ''latest'', template = path, platform = platform'\<rparr>
           in if CHR ''@'' \<in> set path then
                (case split (CHR ''@'') path of
                   template' # ref' # _ \<Rightarrow>
                     if ref' = [] \<or> template' = [] then
                       (Inl (Error ''why have you forsaken me''), s)
                     else
                       (case validateRef w ref' s of
                          (Inl e, s) \<Rightarrow> (Inl e, s)
                        | (Inr _, s) \<Rightarrow>
                            (Inr (value\<lparr>template := template',
                                        ref := (if ref' = ''next'' then ''main''
                                                else if ref' = ''latest'' then ''latest''
                                                else ''astro@'' @ ref')\<rparr>), s))
                 | _ \<Rightarrow> (Inl (Error ''why have you forsaken me''), s))
              else (Inr value, s))"

subsection \<open>The route \<^verbatim>\<open>get\<close>, lines 163 to 187\<close>

definition get :: "world \<Rightarrow> APIContext \<Rightarrow> state \<Rightarrow> http_result \<times> state" where
  "get w ctx s =
     (if pathname ctx = ''/'' then (Redirect (Some ''/latest''), s)
      else
        (case parseReq w ctx s of
           (Inl e, s) \<Rightarrow>
             (Response ''An internal error occurred'' 500,
              s\<lparr>console := console s @ [ErrorThrown e]\<rparr>)
         | (Inr v, s) \<Rightarrow>
             (case getExamples w (ref v) s of
                (Inl e, s) \<Rightarrow>
                  (Response ''An internal error occurred'' 500,
                   s\<lparr>console := console s @ [ErrorThrown e]\<rparr>)
              | (Inr examples, s) \<Rightarrow>
                  (case find (\<lambda>x. name x = template v) examples of
                     None \<Rightarrow>
                       (Response (''Unable to find '' @ template v
                          @ ''! Supported templates are:'' @ [CHR 0x0A] @ ''  - ''
                          @ join ([CHR 0x0A] @ ''  - '') (map (\<lambda>x. name x) examples)) 404, s)
                   | Some example \<Rightarrow> (Redirect (property example (platform v)), s)))))"

subsection \<open>Later activity of the process\<close>

text \<open>
  Whatever the process does after a call is a sequence of further calls, each in the
  environment of its moment. The route is the only export of the module, so every
  function is reached through it; the sequence may still name each of them.
\<close>

datatype call =
    GetExamples string
  | GetRelease string
  | ValidateRef string
  | ParseReq APIContext
  | Get APIContext

fun exec :: "world \<times> call \<Rightarrow> state \<Rightarrow> state" where
  "exec (w, GetExamples r) s = snd (getExamples w r s)"
| "exec (w, GetRelease r) s = snd (getRelease w r s)"
| "exec (w, ValidateRef r) s = snd (validateRef w r s)"
| "exec (w, ParseReq ctx) s = snd (parseReq w ctx s)"
| "exec (w, Get ctx) s = snd (get w ctx s)"

definition run :: "(world \<times> call) list \<Rightarrow> state \<Rightarrow> state" where
  "run cs s = fold exec cs s"

subsection \<open>Sample environments\<close>

text \<open>
  An upstream that serves the listing of section 8 of the specification for every ref,
  knows the release \<^verbatim>\<open>astro@1.0.0\<close> and answers 404 to everything else.
\<close>

definition github_world :: world where
  "github_world =
     \<lparr>VITE_GITHUB_TOKEN = None,
      fetch = (\<lambda>req.
        if prefix ''https://api.github.com/repos/withastro/astro/contents/'' (url req) then
          Resolved \<lparr>status = 200, json = Resolved (JArray
            [\<lparr>name_u = ''basics'', size_u = 0, html_url = Some ''https://x/basics''\<rparr>,
             \<lparr>name_u = ''README.md'', size_u = 42, html_url = Some ''https://x/readme''\<rparr>])\<rparr>
        else if url req = ''https://api.github.com/repos/withastro/astro/releases/tags/astro@1.0.0'' then
          Resolved \<lparr>status = 200, json = Resolved (JOther ''astro@1.0.0'')\<rparr>
        else Resolved \<lparr>status = 404, json = Resolved (JOther ''Not Found'')\<rparr>)\<rparr>"

text \<open>No network, and a token in the environment.\<close>

definition offline_world :: world where
  "offline_world = \<lparr>VITE_GITHUB_TOKEN = Some ''t0ken'', fetch = (\<lambda>req. Rejected)\<rparr>"

text \<open>An upstream that answers every request with an object instead of an array.\<close>

definition limited_world :: world where
  "limited_world =
     \<lparr>VITE_GITHUB_TOKEN = None,
      fetch = (\<lambda>req. Resolved \<lparr>status = 403, json = Resolved (JOther ''API rate limit exceeded'')\<rparr>)\<rparr>"

text \<open>An upstream whose listing holds an entry of negative size.\<close>

definition negative_world :: world where
  "negative_world =
     \<lparr>VITE_GITHUB_TOKEN = None,
      fetch = (\<lambda>req. Resolved \<lparr>status = 200, json = Resolved (JArray
        [\<lparr>name_u = ''basics'', size_u = - 1, html_url = Some ''https://x/basics''\<rparr>])\<rparr>)\<rparr>"

text \<open>An upstream whose listing holds a directory without \<^verbatim>\<open>html_url\<close>.\<close>

definition bare_world :: world where
  "bare_world =
     \<lparr>VITE_GITHUB_TOKEN = None,
      fetch = (\<lambda>req. Resolved \<lparr>status = 200, json = Resolved (JArray
        [\<lparr>name_u = ''basics'', size_u = 0, html_url = None\<rparr>])\<rparr>)\<rparr>"

section \<open>Properties\<close>

subsection \<open>The caches only grow\<close>

lemma getRelease_hit:
  "releaseCache s r = Some v \<Longrightarrow> getRelease w r s = (Inr v, s)"
  by (simp add: getRelease_def)

lemma getRelease_stores:
  "getRelease w r s = (Inr v, s') \<Longrightarrow> releaseCache s' r = Some v"
  by (cases "releaseCache s r"; cases "VITE_GITHUB_TOKEN w")
    (auto simp add: getRelease_def Let_def split: promise.splits if_splits)

lemma getRelease_keeps_release:
  "releaseCache s k = Some v \<Longrightarrow> releaseCache (snd (getRelease w r s)) k = Some v"
  by (cases "releaseCache s r"; cases "VITE_GITHUB_TOKEN w"; cases "k = r")
    (simp_all add: getRelease_def Let_def split: promise.split)





lemma getExamples_keeps_release:
  "releaseCache (snd (getExamples w r s)) = releaseCache s"
  by (cases "examplesCache s r"; cases "VITE_GITHUB_TOKEN w")
    (simp_all add: getExamples_def Let_def split: promise.split json_value.split)

lemma validateRef_snd:
  "snd (validateRef w r s) = (if r = ''next'' \<or> r = ''latest'' then s else snd (getRelease w r s))"
  by (auto simp: validateRef_def split: prod.splits sum.splits)

lemma split_first_two:
  "c \<in> set p \<Longrightarrow>
   \<exists>others. split c p =
     takeWhile (\<lambda>x. x \<noteq> c) p #
     takeWhile (\<lambda>x. x \<noteq> c) (tl (dropWhile (\<lambda>x. x \<noteq> c) p)) # others"
proof (induction p)
  case Nil
  then show ?case by simp
next
  case (Cons x xs)
  show ?case
  proof (cases "x = c")
    case True
    have "\<exists>others. split c xs = takeWhile (\<lambda>x. x \<noteq> c) xs # others"
      by (induction xs) (auto split: list.splits)
    with True show ?thesis by auto
  next
    case False
    with Cons.prems have "c \<in> set xs" by simp
    from Cons.IH [OF this] False show ?thesis by auto
  qed
qed

lemma parseReq_no_at:
  assumes "isPlatform (case searchParams_on ctx of None \<Rightarrow> ''stackblitz'' | Some p \<Rightarrow> p)"
    and "CHR ''@'' \<notin> set (path_of ctx)"
  shows "parseReq w ctx s =
    (Inr \<lparr>ref = ''latest'', template = path_of ctx,
          platform = (case searchParams_on ctx of None \<Rightarrow> ''stackblitz'' | Some p \<Rightarrow> p)\<rparr>, s)"
  using assms by (simp add: parseReq_def)

lemma parseReq_malformed:
  assumes "isPlatform (case searchParams_on ctx of None \<Rightarrow> ''stackblitz'' | Some p \<Rightarrow> p)"
    and "CHR ''@'' \<in> set (path_of ctx)"
    and "split (CHR ''@'') (path_of ctx) = t # r # others"
    and "r = [] \<or> t = []"
  shows "parseReq w ctx s = (Inl (Error ''why have you forsaken me''), s)"
  using assms by (simp add: parseReq_def)

lemma parseReq_explicit:
  assumes "isPlatform (case searchParams_on ctx of None \<Rightarrow> ''stackblitz'' | Some p \<Rightarrow> p)"
    and "CHR ''@'' \<in> set (path_of ctx)"
    and "split (CHR ''@'') (path_of ctx) = t # r # others"
    and "r \<noteq> []" and "t \<noteq> []"
  shows "parseReq w ctx s =
    (case validateRef w r s of
       (Inl e, s') \<Rightarrow> (Inl e, s')
     | (Inr _, s') \<Rightarrow>
         (Inr \<lparr>ref = (if r = ''next'' then ''main'' else if r = ''latest'' then ''latest''
                      else ''astro@'' @ r),
               template = t,
               platform = (case searchParams_on ctx of None \<Rightarrow> ''stackblitz'' | Some p \<Rightarrow> p)\<rparr>, s'))"
  using assms by (simp add: parseReq_def split: prod.splits sum.splits)

lemma parseReq_snd:
  "snd (parseReq w ctx s) = s \<or> (\<exists>r. snd (parseReq w ctx s) = snd (validateRef w r s))"
proof (cases "isPlatform (case searchParams_on ctx of None \<Rightarrow> ''stackblitz'' | Some p \<Rightarrow> p)")
  case False
  then show ?thesis by (simp add: parseReq_def)
next
  case plat: True
  show ?thesis
  proof (cases "CHR ''@'' \<in> set (path_of ctx)")
    case False
    with plat show ?thesis by (simp add: parseReq_no_at)
  next
    case True
    from split_first_two [OF True] obtain t r others
      where sp: "split (CHR ''@'') (path_of ctx) = t # r # others" by blast
    show ?thesis
    proof (cases "r = [] \<or> t = []")
      case True
      with plat \<open>CHR ''@'' \<in> set (path_of ctx)\<close> sp show ?thesis
        by (simp add: parseReq_malformed)
    next
      case False
      then have "snd (parseReq w ctx s) = snd (validateRef w r s)"
        using plat \<open>CHR ''@'' \<in> set (path_of ctx)\<close> sp
        by (simp add: parseReq_explicit split: prod.splits sum.splits)
      then show ?thesis by blast
    qed
  qed
qed

lemma parseReq_keeps_release:
  "releaseCache s k = Some v \<Longrightarrow> releaseCache (snd (parseReq w ctx s)) k = Some v"
  using parseReq_snd [of w ctx s]
  by (auto simp: validateRef_snd getRelease_keeps_release split: if_splits)


lemma get_keeps_release:
  "releaseCache s k = Some v \<Longrightarrow> releaseCache (snd (get w ctx s)) k = Some v"
proof -
  assume a: "releaseCache s k = Some v"
  have p: "releaseCache (snd (parseReq w ctx s)) k = Some v"
    by (rule parseReq_keeps_release [OF a])
  show ?thesis
  proof (cases "parseReq w ctx s")
    case (Pair res s1)
    with p have p1: "releaseCache s1 k = Some v" by simp
    show ?thesis
    proof (cases res)
      case (Inl e)
      with Pair p1 a show ?thesis by (simp add: get_def)
    next
      case (Inr pv)
      have "releaseCache (snd (getExamples w (ref pv) s1)) k = Some v"
        by (simp add: getExamples_keeps_release p1)
      with Pair Inr a show ?thesis
        by (auto simp: get_def split: prod.splits sum.splits option.splits)
    qed
  qed
qed


lemma exec_keeps_release:
  "releaseCache s k = Some v \<Longrightarrow> releaseCache (exec c s) k = Some v"
proof (cases c)
  case (Pair w op)
  assume "releaseCache s k = Some v"
  with Pair show ?thesis
    by (cases op)
      (simp_all add: getExamples_keeps_release getRelease_keeps_release validateRef_snd
        parseReq_keeps_release get_keeps_release)
qed


lemma run_keeps_release:
  "releaseCache s k = Some v \<Longrightarrow> releaseCache (run cs s) k = Some v"
  unfolding run_def by (induction cs arbitrary: s) (simp_all add: exec_keeps_release)


subsection \<open>A miss of the release cache\<close>

lemma getRelease_miss_result:
  assumes "releaseCache s r = None"
  shows "\<exists>req. requests (snd (getRelease w r s)) = requests s @ [req] \<and>
      url req = ''https://api.github.com/repos/withastro/astro/releases/tags/astro@'' @ r \<and>
      (\<forall>res. fetch w req = Resolved res \<longrightarrow>
         (status res = 200 \<longrightarrow>
            (\<forall>body. json res = Resolved body \<longrightarrow> fst (getRelease w r s) = Inr body)) \<and>
         (status res \<noteq> 200 \<longrightarrow> fst (getRelease w r s) = Inr JNull))"
  using assms
  by (cases "VITE_GITHUB_TOKEN w")
    (simp_all add: getRelease_def Let_def split: promise.split)

subsection \<open>The release lookup\<close>

text \<open>
  Claim C4. On a miss the release lookup sends one request, to the release-by-tag
  endpoint for \<^verbatim>\<open>astro@<ref>\<close>; when the answer has status 200 it returns the
  parsed body, and for any other status it returns \<^verbatim>\<open>null\<close>. Whatever a call
  returns, \<^verbatim>\<open>null\<close> included, is stored under the raw ref string: after any
  later activity of the process, in any environment, a call with the same string
  returns that value, leaves the state as it is and so sends no request.
\<close>

theorem getRelease_memoized:
  "(releaseCache s r = None \<longrightarrow>
      (\<exists>req. requests (snd (getRelease w r s)) = requests s @ [req] \<and>
         url req = ''https://api.github.com/repos/withastro/astro/releases/tags/astro@'' @ r \<and>
         (\<forall>res. fetch w req = Resolved res \<longrightarrow>
            (status res = 200 \<longrightarrow>
               (\<forall>body. json res = Resolved body \<longrightarrow> fst (getRelease w r s) = Inr body)) \<and>
            (status res \<noteq> 200 \<longrightarrow> fst (getRelease w r s) = Inr JNull)))) \<and>
   (\<forall>v s'. getRelease w r s = (Inr v, s') \<longrightarrow>
      releaseCache s' r = Some v \<and>
      (\<forall>later w'.
         getRelease w' r (run later s') = (Inr v, run later s') \<and>
         requests (snd (getRelease w' r (run later s'))) = requests (run later s')))"
proof (intro conjI impI allI)
  assume "releaseCache s r = None"
  then show "\<exists>req. requests (snd (getRelease w r s)) = requests s @ [req] \<and>
         url req = ''https://api.github.com/repos/withastro/astro/releases/tags/astro@'' @ r \<and>
         (\<forall>res. fetch w req = Resolved res \<longrightarrow>
            (status res = 200 \<longrightarrow>
               (\<forall>body. json res = Resolved body \<longrightarrow> fst (getRelease w r s) = Inr body)) \<and>
            (status res \<noteq> 200 \<longrightarrow> fst (getRelease w r s) = Inr JNull))"
    by (rule getRelease_miss_result)
next
  fix v s'
  assume g: "getRelease w r s = (Inr v, s')"
  then show st: "releaseCache s' r = Some v" by (rule getRelease_stores)
  fix later w'
  have "releaseCache (run later s') r = Some v"
    by (rule run_keeps_release [OF st])
  then show h: "getRelease w' r (run later s') = (Inr v, run later s')"
    by (rule getRelease_hit)
  show "requests (snd (getRelease w' r (run later s'))) = requests (run later s')"
    by (simp add: h)
qed

theorem getRelease_memoized_witness:
  "releaseCache init_state ''1.0.0'' = None \<and>
   fst (getRelease github_world ''1.0.0'' init_state) = Inr (JOther ''astro@1.0.0'') \<and>
   fst (getRelease github_world ''0.0.0'' init_state) = Inr JNull \<and>
   fst (getRelease offline_world ''1.0.0''
     (run [(offline_world, GetRelease ''2.0.0'')] (snd (getRelease github_world ''1.0.0'' init_state))))
     = Inr (JOther ''astro@1.0.0'') \<and>
   fst (getRelease offline_world ''2.0.0''
     (run [(offline_world, GetRelease ''2.0.0'')] (snd (getRelease github_world ''1.0.0'' init_state))))
     = Inl TypeError \<and>
   fst (getRelease offline_world ''0.0.0'' (run [] (snd (getRelease github_world ''0.0.0'' init_state))))
     = Inr JNull"
proof -
  have a: "releaseCache init_state ''1.0.0'' = None"
    by (simp add: init_state_def)
  have b: "getRelease github_world ''1.0.0'' init_state =
      (Inr (JOther ''astro@1.0.0''), snd (getRelease github_world ''1.0.0'' init_state))"
    by (simp add: getRelease_def init_state_def github_world_def)
  have c: "fst (getRelease github_world ''0.0.0'' init_state) = Inr JNull"
    by (simp add: getRelease_def init_state_def github_world_def)
  have d: "fst (getRelease offline_world ''2.0.0''
     (run [(offline_world, GetRelease ''2.0.0'')] (snd (getRelease github_world ''1.0.0'' init_state))))
     = Inl TypeError"
    by (simp add: getRelease_def init_state_def github_world_def offline_world_def run_def)
  from b have e: "fst (getRelease github_world ''1.0.0'' init_state) = Inr (JOther ''astro@1.0.0'')"
    by (metis fst_conv)
  from getRelease_memoized [of init_state "''1.0.0''" github_world] b
  have "getRelease offline_world ''1.0.0''
     (run [(offline_world, GetRelease ''2.0.0'')] (snd (getRelease github_world ''1.0.0'' init_state)))
     = (Inr (JOther ''astro@1.0.0''),
        run [(offline_world, GetRelease ''2.0.0'')] (snd (getRelease github_world ''1.0.0'' init_state)))"
    by blast
  then have f: "fst (getRelease offline_world ''1.0.0''
     (run [(offline_world, GetRelease ''2.0.0'')] (snd (getRelease github_world ''1.0.0'' init_state))))
     = Inr (JOther ''astro@1.0.0'')"
    by (metis fst_conv)
  have n: "getRelease github_world ''0.0.0'' init_state =
      (Inr JNull, snd (getRelease github_world ''0.0.0'' init_state))"
    by (simp add: getRelease_def init_state_def github_world_def)
  from getRelease_memoized [of init_state "''0.0.0''" github_world] n
  have "getRelease offline_world ''0.0.0'' (run [] (snd (getRelease github_world ''0.0.0'' init_state)))
     = (Inr JNull, run [] (snd (getRelease github_world ''0.0.0'' init_state)))"
    by blast
  then have k: "fst (getRelease offline_world ''0.0.0''
      (run [] (snd (getRelease github_world ''0.0.0'' init_state)))) = Inr JNull"
    by (metis fst_conv)
  from a e c f d k show ?thesis by blast
qed

subsection \<open>A miss of the listing cache\<close>

lemma getExamples_miss_request:
  assumes "examplesCache s r = None"
  shows "\<exists>req. requests (snd (getExamples w r s)) = requests s @ [req] \<and>
      url req = ''https://api.github.com/repos/withastro/astro/contents/examples?ref='' @ r \<and>
      (\<forall>res entries. fetch w req = Resolved res \<longrightarrow> json res = Resolved (JArray entries) \<longrightarrow>
         fst (getExamples w r s) = Inr (concat (map (flatMap_callback r) entries))) \<and>
      (\<forall>res body. fetch w req = Resolved res \<longrightarrow> json res = Resolved body \<longrightarrow>
         (\<forall>entries. body \<noteq> JArray entries) \<longrightarrow>
         fst (getExamples w r s) = Inl (Error ''Unable to fetch templates from GitHub'') \<and>
         last (console (snd (getExamples w r s))) =
           ErrorPayload ''Unable to fetch templates from GitHub. Expected array, got:'' body \<and>
         examplesCache (snd (getExamples w r s)) = examplesCache s)"
  using assms
  by (cases "VITE_GITHUB_TOKEN w")
    (simp_all add: getExamples_def Let_def split: promise.split json_value.split)

lemma flatMap_callback_names:
  "map name (concat (map (flatMap_callback r) entries)) =
     map name_u (filter (\<lambda>e. \<not> size_u e > 0) entries)"
  by (induction entries) (simp_all add: flatMap_callback_def)

lemma flatMap_callback_github:
  "map github (concat (map (flatMap_callback r) entries)) =
     map html_url (filter (\<lambda>e. \<not> size_u e > 0) entries)"
  by (induction entries) (simp_all add: flatMap_callback_def)

lemma filter_sizes_nonneg:
  "\<forall>e \<in> set entries. 0 \<le> size_u e \<Longrightarrow>
   filter (\<lambda>e. \<not> size_u e > 0) entries = filter (\<lambda>e. size_u e = 0) entries"
  by (rule filter_cong) auto

subsection \<open>The template listing\<close>



text \<open>
  Claim C6, as amended. On a miss answered by an array, the listing holds one template
  entry for each element whose size is not greater than zero, in the order of the
  array, named after the element and with its HTML URL under \<^verbatim>\<open>github\<close>;
  elements of size greater than zero are left out. When no size is negative the
  entries are those of the elements of size zero.
\<close>

theorem getExamples_filters_by_size:
  "examplesCache s r = None \<Longrightarrow>
   \<exists>req. requests (snd (getExamples w r s)) = requests s @ [req] \<and>
     (\<forall>res entries. fetch w req = Resolved res \<longrightarrow> json res = Resolved (JArray entries) \<longrightarrow>
        (\<exists>values. fst (getExamples w r s) = Inr values \<and>
           map name values = map name_u (filter (\<lambda>e. \<not> size_u e > 0) entries) \<and>
           map github values = map html_url (filter (\<lambda>e. \<not> size_u e > 0) entries) \<and>
           ((\<forall>e \<in> set entries. 0 \<le> size_u e) \<longrightarrow>
              map name values = map name_u (filter (\<lambda>e. size_u e = 0) entries))))"
proof -
  assume "examplesCache s r = None"
  from getExamples_miss_request [OF this, of w] obtain req where
    rq: "requests (snd (getExamples w r s)) = requests s @ [req]" and
    arr: "\<And>res entries. fetch w req = Resolved res \<Longrightarrow> json res = Resolved (JArray entries) \<Longrightarrow>
         fst (getExamples w r s) = Inr (concat (map (flatMap_callback r) entries))"
    by blast
  have "\<exists>values. fst (getExamples w r s) = Inr values \<and>
           map name values = map name_u (filter (\<lambda>e. \<not> size_u e > 0) entries) \<and>
           map github values = map html_url (filter (\<lambda>e. \<not> size_u e > 0) entries) \<and>
           ((\<forall>e \<in> set entries. 0 \<le> size_u e) \<longrightarrow>
              map name values = map name_u (filter (\<lambda>e. size_u e = 0) entries))"
    if "fetch w req = Resolved res" and "json res = Resolved (JArray entries)" for res entries
  proof (intro exI conjI impI)
    show "fst (getExamples w r s) = Inr (concat (map (flatMap_callback r) entries))"
      by (rule arr [OF that])
    show "map name (concat (map (flatMap_callback r) entries)) =
        map name_u (filter (\<lambda>e. \<not> size_u e > 0) entries)"
      by (rule flatMap_callback_names)
    show "map github (concat (map (flatMap_callback r) entries)) =
        map html_url (filter (\<lambda>e. \<not> size_u e > 0) entries)"
      by (rule flatMap_callback_github)
    assume "\<forall>e \<in> set entries. 0 \<le> size_u e"
    then show "map name (concat (map (flatMap_callback r) entries)) =
        map name_u (filter (\<lambda>e. size_u e = 0) entries)"
      by (simp only: flatMap_callback_names filter_sizes_nonneg)
  qed
  with rq show ?thesis by blast
qed

theorem getExamples_filters_by_size_witness:
  "examplesCache init_state ''latest'' = None \<and>
   (\<exists>values. fst (getExamples github_world ''latest'' init_state) = Inr values \<and>
      map name values = [''basics''] \<and> map github values = [Some ''https://x/basics''])"
proof -
  have a: "examplesCache init_state ''latest'' = None"
    by (simp add: init_state_def)
  from getExamples_filters_by_size [OF a, of github_world] obtain req where
    rq: "requests (snd (getExamples github_world ''latest'' init_state)) = requests init_state @ [req]"
    and f: "\<And>res entries. fetch github_world req = Resolved res \<Longrightarrow>
        json res = Resolved (JArray entries) \<Longrightarrow>
        (\<exists>values. fst (getExamples github_world ''latest'' init_state) = Inr values \<and>
           map name values = map name_u (filter (\<lambda>e. \<not> size_u e > 0) entries) \<and>
           map github values = map html_url (filter (\<lambda>e. \<not> size_u e > 0) entries))"
    by blast
  have "requests (snd (getExamples github_world ''latest'' init_state)) =
      [\<lparr>url = ''https://api.github.com/repos/withastro/astro/contents/examples?ref=latest'',
        headers = [(''Accept'', ''application/vnd.github.v3+json'')]\<rparr>]"
    by (simp add: getExamples_def Let_def init_state_def github_world_def)
  with rq have req: "req = \<lparr>url = ''https://api.github.com/repos/withastro/astro/contents/examples?ref=latest'',
        headers = [(''Accept'', ''application/vnd.github.v3+json'')]\<rparr>"
    by (simp add: init_state_def)
  have "fetch github_world req = Resolved \<lparr>status = 200, json = Resolved (JArray
            [\<lparr>name_u = ''basics'', size_u = 0, html_url = Some ''https://x/basics''\<rparr>,
             \<lparr>name_u = ''README.md'', size_u = 42, html_url = Some ''https://x/readme''\<rparr>])\<rparr>"
    by (simp add: req github_world_def)
  from f [OF this] a show ?thesis by simp
qed

text \<open>
  Claim C6 as it was stated fails on an element of negative size: its size is not
  zero, and it yields a template entry.
\<close>

theorem getExamples_negative_size_counterexample:
  "fetch negative_world
     \<lparr>url = ''https://api.github.com/repos/withastro/astro/contents/examples?ref=latest'',
      headers = [(''Accept'', ''application/vnd.github.v3+json'')]\<rparr>
     = Resolved \<lparr>status = 200, json = Resolved (JArray
         [\<lparr>name_u = ''basics'', size_u = - 1, html_url = Some ''https://x/basics''\<rparr>])\<rparr> \<and>
   getExamples negative_world ''latest'' init_state =
     (Inr [\<lparr>name = ''basics'', github = Some ''https://x/basics'', netlify = ''https://astro.build'',
            stackblitz = ''https://stackblitz.com/github/withastro/astro/tree/latest/examples/basics'',
            codesandbox = ''https://codesandbox.io/p/sandbox/github/withastro/astro/tree/latest/examples/basics'',
            gitpod = ''https://gitpod.io/#https://github.com/withastro/astro/tree/latest/examples/basics''\<rparr>],
      snd (getExamples negative_world ''latest'' init_state))"
  by (simp add: getExamples_def Let_def init_state_def negative_world_def flatMap_callback_def)

text \<open>
  Claim C7. On a miss answered by anything that is not an array, the listing fetch
  throws \<^verbatim>\<open>Error("Unable to fetch templates from GitHub")\<close>; the last line of the
  console is then the error line carrying the payload, and the listing cache is as it
  was before the call, so it still holds nothing for that ref.
\<close>

theorem getExamples_not_array:
  "examplesCache s r = None \<Longrightarrow>
   \<exists>req. requests (snd (getExamples w r s)) = requests s @ [req] \<and>
     (\<forall>res body. fetch w req = Resolved res \<longrightarrow> json res = Resolved body \<longrightarrow>
        (\<forall>entries. body \<noteq> JArray entries) \<longrightarrow>
        fst (getExamples w r s) = Inl (Error ''Unable to fetch templates from GitHub'') \<and>
        last (console (snd (getExamples w r s))) =
          ErrorPayload ''Unable to fetch templates from GitHub. Expected array, got:'' body \<and>
        examplesCache (snd (getExamples w r s)) = examplesCache s \<and>
        examplesCache (snd (getExamples w r s)) r = None)"
proof -
  assume a: "examplesCache s r = None"
  from getExamples_miss_request [OF this, of w] a show ?thesis
    by (elim exE conjE, intro exI conjI allI impI) (assumption | simp)+
qed

theorem getExamples_not_array_witness:
  "examplesCache init_state ''latest'' = None \<and>
   fst (getExamples limited_world ''latest'' init_state)
     = Inl (Error ''Unable to fetch templates from GitHub'') \<and>
   last (console (snd (getExamples limited_world ''latest'' init_state)))
     = ErrorPayload ''Unable to fetch templates from GitHub. Expected array, got:''
         (JOther ''API rate limit exceeded'') \<and>
   examplesCache (snd (getExamples limited_world ''latest'' init_state)) ''latest'' = None"
proof -
  have a: "examplesCache init_state ''latest'' = None"
    by (simp add: init_state_def)
  from getExamples_not_array [OF a, of limited_world] obtain req where
    f: "\<And>res body. fetch limited_world req = Resolved res \<Longrightarrow> json res = Resolved body \<Longrightarrow>
        (\<forall>entries. body \<noteq> JArray entries) \<Longrightarrow>
        fst (getExamples limited_world ''latest'' init_state)
          = Inl (Error ''Unable to fetch templates from GitHub'') \<and>
        last (console (snd (getExamples limited_world ''latest'' init_state))) =
          ErrorPayload ''Unable to fetch templates from GitHub. Expected array, got:'' body \<and>
        examplesCache (snd (getExamples limited_world ''latest'' init_state)) ''latest'' = None"
    by blast
  have "fetch limited_world req =
      Resolved \<lparr>status = 403, json = Resolved (JOther ''API rate limit exceeded'')\<rparr>"
    by (simp add: limited_world_def)
  from f [OF this] a show ?thesis by simp
qed

subsection \<open>Messages\<close>

lemma sublist_between: "sublist x (a @ x @ b)"
  by (rule sublist_appendI)

lemma join_mentions: "x \<in> set xs \<Longrightarrow> sublist x (join sep xs)"
proof (induction sep xs rule: join.induct)
  case (1 sep)
  then show ?case by simp
next
  case (2 sep y)
  then show ?case by simp
next
  case (3 sep y z zs)
  show ?case
  proof (cases "x = y")
    case True
    then show ?thesis by simp
  next
    case False
    with "3.prems" have "x \<in> set (z # zs)" by simp
    then have "sublist x (join sep (z # zs))" by (rule "3.IH")
    then have "sublist x ((y @ sep) @ join sep (z # zs))"
      by (rule sublist_order.order_trans) (rule sublist_append_leftI)
    then show ?thesis by simp
  qed
qed

lemma getRelease_errors:
  "fst (getRelease w r s) = Inl e \<Longrightarrow> e = TypeError \<or> e = SyntaxError"
  by (cases "releaseCache s r"; cases "VITE_GITHUB_TOKEN w")
    (auto simp add: getRelease_def Let_def split: promise.splits if_splits)

subsection \<open>The reference validator\<close>

text \<open>
  Claim C3. \<^verbatim>\<open>validateRef\<close> succeeds on \<^verbatim>\<open>"next"\<close> and \<^verbatim>\<open>"latest"\<close> and leaves
  the state as it was, so no request is sent. On any other string it does what the
  release lookup for that string does to the state; when the lookup returns a value,
  validation succeeds exactly when the value is not \<^verbatim>\<open>null\<close>, and on
  \<^verbatim>\<open>null\<close> it throws an error whose message quotes the string, names
  \<^verbatim>\<open>"next"\<close> and \<^verbatim>\<open>"latest"\<close> and links to the releases of the upstream
  project. A lookup that throws makes the validation throw the same error.
\<close>

theorem validateRef_valid_iff_release:
  "(name' = ''next'' \<or> name' = ''latest'' \<longrightarrow> validateRef w name' s = (Inr True, s)) \<and>
   (name' \<noteq> ''next'' \<and> name' \<noteq> ''latest'' \<longrightarrow>
      snd (validateRef w name' s) = snd (getRelease w name' s) \<and>
      (\<forall>release. fst (getRelease w name' s) = Inr release \<longrightarrow>
         (fst (validateRef w name' s) = Inr True \<longleftrightarrow> release \<noteq> JNull) \<and>
         (release = JNull \<longrightarrow>
            (\<exists>msg. fst (validateRef w name' s) = Inl (Error msg) \<and>
               sublist ([CHR 0x22] @ name' @ [CHR 0x22]) msg \<and>
               sublist ([CHR 0x22] @ ''next'' @ [CHR 0x22]) msg \<and>
               sublist ([CHR 0x22] @ ''latest'' @ [CHR 0x22]) msg \<and>
               sublist ''GitHub release'' msg \<and>
               sublist ''https://github.com/withastro/astro/releases?q=astro%40'' msg))) \<and>
      (\<forall>e. fst (getRelease w name' s) = Inl e \<longrightarrow> fst (validateRef w name' s) = Inl e))"
proof (intro conjI impI allI)
  assume "name' = ''next'' \<or> name' = ''latest''"
  then show "validateRef w name' s = (Inr True, s)"
    by (auto simp add: validateRef_def)
next
  assume n: "name' \<noteq> ''next'' \<and> name' \<noteq> ''latest''"
  then show "snd (validateRef w name' s) = snd (getRelease w name' s)"
    by (simp add: validateRef_snd)
  fix e
  assume "fst (getRelease w name' s) = Inl e"
  with n show "fst (validateRef w name' s) = Inl e"
    by (cases "getRelease w name' s") (simp add: validateRef_def)
next
  fix release
  assume n: "name' \<noteq> ''next'' \<and> name' \<noteq> ''latest''"
    and g: "fst (getRelease w name' s) = Inr release"
  then show "fst (validateRef w name' s) = Inr True \<longleftrightarrow> release \<noteq> JNull"
    by (cases "getRelease w name' s") (simp add: validateRef_def)
  assume z: "release = JNull"
  let ?q = "[CHR 0x22]"
  let ?msg = "''Invalid version '' @ ?q @ name' @ ?q
                        @ ''! Supported versions are '' @ ?q @ ''next'' @ ?q
                        @ '', '' @ ?q @ ''latest'' @ ?q
                        @ '', or any <a href='' @ ?q
                        @ ''https://github.com/withastro/astro/releases?q=astro%40'' @ ?q
                        @ ''>GitHub release</a>.''"
  from n g z have m: "fst (validateRef w name' s) = Inl (Error ?msg)"
    by (cases "getRelease w name' s") (simp add: validateRef_def)
  have 1: "sublist (?q @ name' @ ?q) ?msg"
    using sublist_between [of "?q @ name' @ ?q" "''Invalid version ''"
        "''! Supported versions are '' @ ?q @ ''next'' @ ?q
                        @ '', '' @ ?q @ ''latest'' @ ?q
                        @ '', or any <a href='' @ ?q
                        @ ''https://github.com/withastro/astro/releases?q=astro%40'' @ ?q
                        @ ''>GitHub release</a>.''"]
    by (simp only: append_assoc)
  have 2: "sublist (?q @ ''next'' @ ?q) ?msg"
    using sublist_between [of "?q @ ''next'' @ ?q"
        "''Invalid version '' @ ?q @ name' @ ?q @ ''! Supported versions are ''"
        "'', '' @ ?q @ ''latest'' @ ?q
                        @ '', or any <a href='' @ ?q
                        @ ''https://github.com/withastro/astro/releases?q=astro%40'' @ ?q
                        @ ''>GitHub release</a>.''"]
    by (simp only: append_assoc)
  have 3: "sublist (?q @ ''latest'' @ ?q) ?msg"
    using sublist_between [of "?q @ ''latest'' @ ?q"
        "''Invalid version '' @ ?q @ name' @ ?q @ ''! Supported versions are ''
           @ ?q @ ''next'' @ ?q @ '', ''"
        "'', or any <a href='' @ ?q
                        @ ''https://github.com/withastro/astro/releases?q=astro%40'' @ ?q
                        @ ''>GitHub release</a>.''"]
    by (simp only: append_assoc)
  have 4: "sublist ''https://github.com/withastro/astro/releases?q=astro%40'' ?msg"
    using sublist_between [of "''https://github.com/withastro/astro/releases?q=astro%40''"
        "''Invalid version '' @ ?q @ name' @ ?q @ ''! Supported versions are ''
           @ ?q @ ''next'' @ ?q @ '', '' @ ?q @ ''latest'' @ ?q @ '', or any <a href='' @ ?q"
        "?q @ ''>GitHub release</a>.''"]
    by (simp only: append_assoc)
  have 5: "sublist ''GitHub release'' ?msg"
    using sublist_between [of "''GitHub release''"
        "''Invalid version '' @ ?q @ name' @ ?q @ ''! Supported versions are ''
           @ ?q @ ''next'' @ ?q @ '', '' @ ?q @ ''latest'' @ ?q @ '', or any <a href='' @ ?q
           @ ''https://github.com/withastro/astro/releases?q=astro%40'' @ ?q @ ''>''"
        "''</a>.''"]
    by (simp only: append_assoc append_Cons append_Nil)
  from m 1 2 3 4 5
  show "\<exists>msg. fst (validateRef w name' s) = Inl (Error msg) \<and>
               sublist ([CHR 0x22] @ name' @ [CHR 0x22]) msg \<and>
               sublist ([CHR 0x22] @ ''next'' @ [CHR 0x22]) msg \<and>
               sublist ([CHR 0x22] @ ''latest'' @ [CHR 0x22]) msg \<and>
               sublist ''GitHub release'' msg \<and>
               sublist ''https://github.com/withastro/astro/releases?q=astro%40'' msg"
    by blast
qed

theorem validateRef_valid_iff_release_witness:
  "validateRef offline_world ''next'' init_state = (Inr True, init_state) \<and>
   fst (validateRef github_world ''1.0.0'' init_state) = Inr True \<and>
   (\<exists>msg. fst (validateRef github_world ''doesnotexist12345'' init_state) = Inl (Error msg) \<and>
      sublist ([CHR 0x22] @ ''doesnotexist12345'' @ [CHR 0x22]) msg) \<and>
   fst (validateRef offline_world ''1.0.0'' init_state) = Inl TypeError"
proof -
  have a: "fst (getRelease github_world ''1.0.0'' init_state) = Inr (JOther ''astro@1.0.0'')"
    by (simp add: getRelease_def init_state_def github_world_def)
  have b: "fst (getRelease github_world ''doesnotexist12345'' init_state) = Inr JNull"
    by (simp add: getRelease_def init_state_def github_world_def)
  have c: "fst (getRelease offline_world ''1.0.0'' init_state) = Inl TypeError"
    by (simp add: getRelease_def init_state_def offline_world_def)
  from validateRef_valid_iff_release [of "''next''" offline_world init_state]
  have 1: "validateRef offline_world ''next'' init_state = (Inr True, init_state)"
    by simp
  from validateRef_valid_iff_release [of "''1.0.0''" github_world init_state] a
  have 2: "fst (validateRef github_world ''1.0.0'' init_state) = Inr True"
    by simp
  from validateRef_valid_iff_release [of "''doesnotexist12345''" github_world init_state] b
  have 3: "\<exists>msg. fst (validateRef github_world ''doesnotexist12345'' init_state) = Inl (Error msg) \<and>
      sublist ([CHR 0x22] @ ''doesnotexist12345'' @ [CHR 0x22]) msg"
    by auto
  from validateRef_valid_iff_release [of "''1.0.0''" offline_world init_state] c
  have 4: "fst (validateRef offline_world ''1.0.0'' init_state) = Inl TypeError"
    by simp
  from 1 2 3 4 show ?thesis by blast
qed

subsection \<open>The request parser\<close>

lemma PLATFORMS_names:
  "set PLATFORMS = {''stackblitz'', ''codesandbox'', ''netlify'', ''github'', ''gitpod''}"
  by (simp add: PLATFORMS_def)

lemma parseReq_unsupported:
  assumes "\<not> isPlatform (case searchParams_on ctx of None \<Rightarrow> ''stackblitz'' | Some p \<Rightarrow> p)"
  shows "\<exists>msg. parseReq w ctx s = (Inl (Error msg), s) \<and> (\<forall>q \<in> set PLATFORMS. sublist q msg)"
proof -
  let ?sep = "[CHR 0x0A] @ ''  - ''"
  let ?head = "''Unsupported '' @ [CHR 0x22] @ ''on'' @ [CHR 0x22]
              @ '' query! Supported platforms are:'' @ [CHR 0x0A] @ ''  - ''"
  have "parseReq w ctx s = (Inl (Error (?head @ join ?sep (map (\<lambda>x. x) PLATFORMS))), s)"
    using assms by (simp add: parseReq_def)
  moreover have "sublist q (?head @ join ?sep (map (\<lambda>x. x) PLATFORMS))" if "q \<in> set PLATFORMS" for q
  proof -
    from that have "sublist q (join ?sep (map (\<lambda>x. x) PLATFORMS))"
      by (intro join_mentions) simp
    then show ?thesis
      by (rule sublist_order.order_trans) (rule sublist_append_leftI)
  qed
  ultimately show ?thesis by blast
qed

text \<open>
  Claim C8. The platforms are \<^verbatim>\<open>stackblitz\<close>, \<^verbatim>\<open>codesandbox\<close>, \<^verbatim>\<open>netlify\<close>,
  \<^verbatim>\<open>github\<close> and \<^verbatim>\<open>gitpod\<close>. Without the \<^verbatim>\<open>on\<close> parameter every parsed
  request has the platform \<^verbatim>\<open>stackblitz\<close>, and a path without \<^verbatim>\<open>@\<close> does
  parse. With an \<^verbatim>\<open>on\<close> parameter outside the set the parser throws an error
  whose message contains every platform name, and the state is as it was before: no
  request has been sent.
\<close>

theorem parseReq_platform:
  "set PLATFORMS = {''stackblitz'', ''codesandbox'', ''netlify'', ''github'', ''gitpod''} \<and>
   (searchParams_on ctx = None \<longrightarrow>
      (\<forall>v s'. parseReq w ctx s = (Inr v, s') \<longrightarrow> platform v = ''stackblitz'') \<and>
      (CHR ''@'' \<notin> set (path_of ctx) \<longrightarrow>
         (\<exists>v. parseReq w ctx s = (Inr v, s) \<and> platform v = ''stackblitz''))) \<and>
   (\<forall>p. searchParams_on ctx = Some p \<longrightarrow> p \<notin> set PLATFORMS \<longrightarrow>
      (\<exists>msg. parseReq w ctx s = (Inl (Error msg), s) \<and> (\<forall>q \<in> set PLATFORMS. sublist q msg)))"
proof (intro conjI impI allI)
  show "set PLATFORMS = {''stackblitz'', ''codesandbox'', ''netlify'', ''github'', ''gitpod''}"
    by (rule PLATFORMS_names)
next
  fix p
  assume "searchParams_on ctx = Some p" and "p \<notin> set PLATFORMS"
  then have "\<not> isPlatform (case searchParams_on ctx of None \<Rightarrow> ''stackblitz'' | Some p \<Rightarrow> p)"
    by (simp add: isPlatform_def)
  then show "\<exists>msg. parseReq w ctx s = (Inl (Error msg), s) \<and> (\<forall>q \<in> set PLATFORMS. sublist q msg)"
    by (rule parseReq_unsupported)
next
  assume n: "searchParams_on ctx = None"
  then have pl: "isPlatform (case searchParams_on ctx of None \<Rightarrow> ''stackblitz'' | Some p \<Rightarrow> p)"
    by (simp add: isPlatform_def PLATFORMS_def)
  {
    assume "CHR ''@'' \<notin> set (path_of ctx)"
    from parseReq_no_at [OF pl this, of w s] n
    show "\<exists>v. parseReq w ctx s = (Inr v, s) \<and> platform v = ''stackblitz''"
      by simp
  }
  fix v s'
  assume ok: "parseReq w ctx s = (Inr v, s')"
  show "platform v = ''stackblitz''"
  proof (cases "CHR ''@'' \<in> set (path_of ctx)")
    case False
    from parseReq_no_at [OF pl False, of w s] ok n show ?thesis by auto
  next
    case True
    from split_first_two [OF True] obtain t r others
      where sp: "split (CHR ''@'') (path_of ctx) = t # r # others" by blast
    show ?thesis
    proof (cases "r = [] \<or> t = []")
      case True
      from parseReq_malformed [OF pl \<open>CHR ''@'' \<in> set (path_of ctx)\<close> sp True, of w s] ok
      show ?thesis by simp
    next
      case False
      then have "r \<noteq> []" and "t \<noteq> []" by simp_all
      from parseReq_explicit [OF pl \<open>CHR ''@'' \<in> set (path_of ctx)\<close> sp this, of w s] ok n
      show ?thesis by (auto split: prod.splits sum.splits)
    qed
  qed
qed

theorem parseReq_platform_witness:
  "(\<exists>v. parseReq offline_world \<lparr>pathname = ''/basics'', searchParams_on = None, rest = Some ''basics''\<rparr>
       init_state = (Inr v, init_state) \<and> platform v = ''stackblitz'') \<and>
   (\<exists>msg. parseReq github_world
       \<lparr>pathname = ''/basics@1.0.0'', searchParams_on = Some ''vscode'', rest = Some ''basics@1.0.0''\<rparr>
       init_state = (Inl (Error msg), init_state) \<and>
      sublist ''stackblitz'' msg \<and> sublist ''codesandbox'' msg \<and> sublist ''netlify'' msg \<and>
      sublist ''github'' msg \<and> sublist ''gitpod'' msg)"
proof -
  from parseReq_platform [of "\<lparr>pathname = ''/basics'', searchParams_on = None, rest = Some ''basics''\<rparr>"
      offline_world init_state]
  have 1: "\<exists>v. parseReq offline_world \<lparr>pathname = ''/basics'', searchParams_on = None, rest = Some ''basics''\<rparr>
       init_state = (Inr v, init_state) \<and> platform v = ''stackblitz''"
    by (simp add: path_of_def)
  have "''vscode'' \<notin> set PLATFORMS"
    by (simp add: PLATFORMS_def)
  with parseReq_platform [of
      "\<lparr>pathname = ''/basics@1.0.0'', searchParams_on = Some ''vscode'', rest = Some ''basics@1.0.0''\<rparr>"
      github_world init_state]
  have 2: "\<exists>msg. parseReq github_world
       \<lparr>pathname = ''/basics@1.0.0'', searchParams_on = Some ''vscode'', rest = Some ''basics@1.0.0''\<rparr>
       init_state = (Inl (Error msg), init_state) \<and>
      sublist ''stackblitz'' msg \<and> sublist ''codesandbox'' msg \<and> sublist ''netlify'' msg \<and>
      sublist ''github'' msg \<and> sublist ''gitpod'' msg"
    by (simp add: PLATFORMS_def)
  from 1 2 show ?thesis by blast
qed

subsection \<open>Template and reference\<close>

lemma validateRef_result:
  "fst (validateRef w r s) = Inr True \<or>
   (\<exists>e. fst (validateRef w r s) = Inl e \<and> e \<noteq> Error ''why have you forsaken me'')"
proof (cases "r = ''next'' \<or> r = ''latest''")
  case True
  then show ?thesis by (auto simp add: validateRef_def)
next
  case False
  show ?thesis
  proof (cases "getRelease w r s")
    case (Pair res s1)
    show ?thesis
    proof (cases res)
      case (Inl e)
      with Pair have "fst (getRelease w r s) = Inl e" by simp
      then have "e = TypeError \<or> e = SyntaxError" by (rule getRelease_errors)
      with False Pair Inl show ?thesis by (auto simp add: validateRef_def)
    next
      case (Inr release)
      with False Pair show ?thesis by (simp add: validateRef_def)
    qed
  qed
qed

text \<open>
  Claim C1, as amended. For a supported platform and a path that contains \<^verbatim>\<open>@\<close>,
  the parser cuts the path at every \<^verbatim>\<open>@\<close> and keeps the first two pieces: the
  template is what stands before the first \<^verbatim>\<open>@\<close>, the ref is what stands between
  the first \<^verbatim>\<open>@\<close> and the second, or the whole rest when there is no second one.
  It throws \<^verbatim>\<open>Error("why have you forsaken me")\<close>, with the state untouched,
  exactly when one of the two pieces is empty. Otherwise it validates the ref, throws
  what the validation throws, and on success returns the template with the normalised
  ref.
\<close>

theorem parseReq_template_ref:
  assumes "isPlatform (case searchParams_on ctx of None \<Rightarrow> ''stackblitz'' | Some p \<Rightarrow> p)"
    and "CHR ''@'' \<in> set (path_of ctx)"
  shows "\<exists>template' ref' others.
     split (CHR ''@'') (path_of ctx) = template' # ref' # others \<and>
     template' = takeWhile (\<lambda>c. c \<noteq> CHR ''@'') (path_of ctx) \<and>
     ref' = takeWhile (\<lambda>c. c \<noteq> CHR ''@'') (tl (dropWhile (\<lambda>c. c \<noteq> CHR ''@'') (path_of ctx))) \<and>
     (CHR ''@'' \<notin> set (tl (dropWhile (\<lambda>c. c \<noteq> CHR ''@'') (path_of ctx))) \<longrightarrow>
        ref' = tl (dropWhile (\<lambda>c. c \<noteq> CHR ''@'') (path_of ctx))) \<and>
     (fst (parseReq w ctx s) = Inl (Error ''why have you forsaken me'')
        \<longleftrightarrow> template' = [] \<or> ref' = []) \<and>
     (template' = [] \<or> ref' = [] \<longrightarrow> snd (parseReq w ctx s) = s) \<and>
     (template' \<noteq> [] \<and> ref' \<noteq> [] \<longrightarrow>
        snd (parseReq w ctx s) = snd (validateRef w ref' s) \<and>
        (\<forall>e. fst (validateRef w ref' s) = Inl e \<longrightarrow> fst (parseReq w ctx s) = Inl e) \<and>
        (fst (validateRef w ref' s) = Inr True \<longrightarrow>
           (\<exists>v. fst (parseReq w ctx s) = Inr v \<and> template v = template' \<and>
              ref v = (if ref' = ''next'' then ''main''
                       else if ref' = ''latest'' then ''latest'' else ''astro@'' @ ref'))))"
proof -
  let ?t = "takeWhile (\<lambda>c. c \<noteq> CHR ''@'') (path_of ctx)"
  let ?rest = "tl (dropWhile (\<lambda>c. c \<noteq> CHR ''@'') (path_of ctx))"
  let ?r = "takeWhile (\<lambda>c. c \<noteq> CHR ''@'') ?rest"
  from split_first_two [OF assms(2)] obtain others
    where sp: "split (CHR ''@'') (path_of ctx) = ?t # ?r # others" by blast
  have whole: "CHR ''@'' \<notin> set ?rest \<longrightarrow> ?r = ?rest"
    by (auto simp add: takeWhile_eq_all_conv)
  have empty: "parseReq w ctx s = (Inl (Error ''why have you forsaken me''), s)"
    if "?t = [] \<or> ?r = []"
    using that by (intro parseReq_malformed [OF assms sp]) blast
  have full: "parseReq w ctx s =
    (case validateRef w ?r s of
       (Inl e, s') \<Rightarrow> (Inl e, s')
     | (Inr _, s') \<Rightarrow>
         (Inr \<lparr>ref = (if ?r = ''next'' then ''main'' else if ?r = ''latest'' then ''latest''
                      else ''astro@'' @ ?r),
               template = ?t,
               platform = (case searchParams_on ctx of None \<Rightarrow> ''stackblitz'' | Some p \<Rightarrow> p)\<rparr>, s'))"
    if "?t \<noteq> [] \<and> ?r \<noteq> []"
    using that by (intro parseReq_explicit [OF assms sp]) simp_all
  have iff: "fst (parseReq w ctx s) = Inl (Error ''why have you forsaken me'')
      \<longleftrightarrow> ?t = [] \<or> ?r = []"
  proof
    assume l: "fst (parseReq w ctx s) = Inl (Error ''why have you forsaken me'')"
    show "?t = [] \<or> ?r = []"
    proof (rule ccontr)
      assume "\<not> (?t = [] \<or> ?r = [])"
      then have ne: "?t \<noteq> [] \<and> ?r \<noteq> []" by simp
      from validateRef_result [of w ?r s] l show False
        unfolding full [OF ne] by (cases "validateRef w ?r s") auto
    qed
  next
    assume "?t = [] \<or> ?r = []"
    from empty [OF this] show "fst (parseReq w ctx s) = Inl (Error ''why have you forsaken me'')"
      by simp
  qed
  have untouched: "?t = [] \<or> ?r = [] \<longrightarrow> snd (parseReq w ctx s) = s"
  proof
    assume "?t = [] \<or> ?r = []"
    from empty [OF this] show "snd (parseReq w ctx s) = s" by simp
  qed
  have valid: "?t \<noteq> [] \<and> ?r \<noteq> [] \<longrightarrow>
        snd (parseReq w ctx s) = snd (validateRef w ?r s) \<and>
        (\<forall>e. fst (validateRef w ?r s) = Inl e \<longrightarrow> fst (parseReq w ctx s) = Inl e) \<and>
        (fst (validateRef w ?r s) = Inr True \<longrightarrow>
           (\<exists>v. fst (parseReq w ctx s) = Inr v \<and> template v = ?t \<and>
              ref v = (if ?r = ''next'' then ''main''
                       else if ?r = ''latest'' then ''latest'' else ''astro@'' @ ?r)))"
  proof
    assume ne: "?t \<noteq> [] \<and> ?r \<noteq> []"
    show "snd (parseReq w ctx s) = snd (validateRef w ?r s) \<and>
        (\<forall>e. fst (validateRef w ?r s) = Inl e \<longrightarrow> fst (parseReq w ctx s) = Inl e) \<and>
        (fst (validateRef w ?r s) = Inr True \<longrightarrow>
           (\<exists>v. fst (parseReq w ctx s) = Inr v \<and> template v = ?t \<and>
              ref v = (if ?r = ''next'' then ''main''
                       else if ?r = ''latest'' then ''latest'' else ''astro@'' @ ?r)))"
      unfolding full [OF ne]
      by (cases "validateRef w ?r s") (auto split: sum.splits)
  qed
  from sp whole iff untouched valid show ?thesis by blast
qed

theorem parseReq_template_ref_witness:
  "isPlatform ''github'' \<and>
   path_of \<lparr>pathname = ''/basics@1.0.0'', searchParams_on = Some ''github'',
            rest = Some ''/basics@1.0.0''\<rparr> = ''basics@1.0.0'' \<and>
   (\<exists>v. fst (parseReq github_world
            \<lparr>pathname = ''/basics@1.0.0'', searchParams_on = Some ''github'',
             rest = Some ''/basics@1.0.0''\<rparr> init_state) = Inr v \<and>
      template v = ''basics'' \<and> ref v = ''astro@1.0.0'')"
proof -
  let ?ctx = "\<lparr>pathname = ''/basics@1.0.0'', searchParams_on = Some ''github'',
      rest = Some ''/basics@1.0.0''\<rparr>"
  have pl: "isPlatform (case searchParams_on ?ctx of None \<Rightarrow> ''stackblitz'' | Some p \<Rightarrow> p)"
    by (simp add: isPlatform_def PLATFORMS_def)
  have pa: "path_of ?ctx = ''basics@1.0.0''"
    by (simp add: path_of_def)
  have at: "CHR ''@'' \<in> set (path_of ?ctx)"
    by (simp add: pa)
  have va: "fst (validateRef github_world ''1.0.0'' init_state) = Inr True"
    by (simp add: validateRef_def getRelease_def init_state_def github_world_def)
  from parseReq_template_ref [OF pl at, of github_world init_state] va
  have "\<exists>v. fst (parseReq github_world ?ctx init_state) = Inr v \<and>
      template v = ''basics'' \<and> ref v = ''astro@1.0.0''"
    by (simp add: pa)
  with pl pa show ?thesis by simp
qed

text \<open>
  Claim C1 as it was stated fails on a path with a second \<^verbatim>\<open>@\<close>. In
  \<^verbatim>\<open>basics@next@x\<close> the ref is \<^verbatim>\<open>next\<close>, not the whole \<^verbatim>\<open>next@x\<close> that follows
  the first \<^verbatim>\<open>@\<close>: the request parses, with the key \<^verbatim>\<open>main\<close> and without any
  lookup. In \<^verbatim>\<open>basics@@x\<close> both sides of the first \<^verbatim>\<open>@\<close> are non-empty, and the
  parser throws its parse error. In \<^verbatim>\<open>@next\<close> the template side is empty, but with
  a platform that is not supported the error is not the parse error: the platform is
  checked first.
\<close>

theorem parseReq_second_at_counterexample:
  "path_of \<lparr>pathname = ''/basics@next@x'', searchParams_on = None, rest = Some ''basics@next@x''\<rparr>
     = ''basics'' @ ''@'' @ ''next@x'' \<and>
   CHR ''@'' \<notin> set ''basics'' \<and>
   parseReq offline_world
     \<lparr>pathname = ''/basics@next@x'', searchParams_on = None, rest = Some ''basics@next@x''\<rparr>
     init_state
     = (Inr \<lparr>ref = ''main'', template = ''basics'', platform = ''stackblitz''\<rparr>, init_state) \<and>
   path_of \<lparr>pathname = ''/basics@@x'', searchParams_on = None, rest = Some ''basics@@x''\<rparr>
     = ''basics'' @ ''@'' @ ''@x'' \<and>
   parseReq offline_world
     \<lparr>pathname = ''/basics@@x'', searchParams_on = None, rest = Some ''basics@@x''\<rparr>
     init_state
     = (Inl (Error ''why have you forsaken me''), init_state) \<and>
   path_of \<lparr>pathname = ''/@next'', searchParams_on = Some ''vscode'', rest = Some ''@next''\<rparr>
     = [] @ ''@'' @ ''next'' \<and>
   fst (parseReq offline_world
     \<lparr>pathname = ''/@next'', searchParams_on = Some ''vscode'', rest = Some ''@next''\<rparr>
     init_state)
     \<noteq> Inl (Error ''why have you forsaken me'')"
  by (simp add: parseReq_def path_of_def isPlatform_def PLATFORMS_def validateRef_def)

text \<open>
  Claim C2. When a request parses, the ref of the parsed request is \<^verbatim>\<open>latest\<close> for
  a path without \<^verbatim>\<open>@\<close>. For a path with \<^verbatim>\<open>@\<close> it comes from the second piece
  of the path, which has been validated: \<^verbatim>\<open>main\<close> for \<^verbatim>\<open>next\<close>, \<^verbatim>\<open>latest\<close> for
  \<^verbatim>\<open>latest\<close>, and \<^verbatim>\<open>astro@\<close> followed by the piece for anything else. The
  route, on any path but the root, then reads the listing cache under exactly this
  ref.
\<close>

theorem parseReq_listing_key:
  assumes "parseReq w ctx s = (Inr v, s')"
  shows "(CHR ''@'' \<notin> set (path_of ctx) \<longrightarrow> ref v = ''latest'') \<and>
     (CHR ''@'' \<in> set (path_of ctx) \<longrightarrow>
        (\<exists>template' ref' others.
           split (CHR ''@'') (path_of ctx) = template' # ref' # others \<and>
           validateRef w ref' s = (Inr True, s') \<and>
           ref v = (if ref' = ''next'' then ''main''
                    else if ref' = ''latest'' then ''latest'' else ''astro@'' @ ref'))) \<and>
     (pathname ctx \<noteq> ''/'' \<longrightarrow>
        examplesCache (snd (get w ctx s)) = examplesCache (snd (getExamples w (ref v) s')) \<and>
        requests (snd (get w ctx s)) = requests (snd (getExamples w (ref v) s')))"
proof (intro conjI impI)
  have pl: "isPlatform (case searchParams_on ctx of None \<Rightarrow> ''stackblitz'' | Some p \<Rightarrow> p)"
  proof (rule ccontr)
    assume "\<not> ?thesis"
    from parseReq_unsupported [OF this, of w s] assms show False by auto
  qed
  {
    assume "CHR ''@'' \<notin> set (path_of ctx)"
    from parseReq_no_at [OF pl this, of w s] assms show "ref v = ''latest''" by auto
  }
  {
    assume at: "CHR ''@'' \<in> set (path_of ctx)"
    from split_first_two [OF at] obtain t r others
      where sp: "split (CHR ''@'') (path_of ctx) = t # r # others" by blast
    have ne: "r \<noteq> [] \<and> t \<noteq> []"
    proof (rule ccontr)
      assume "\<not> ?thesis"
      then have "r = [] \<or> t = []" by blast
      from parseReq_malformed [OF pl at sp this, of w s] assms show False by simp
    qed
    then have "r \<noteq> []" and "t \<noteq> []" by simp_all
    from parseReq_explicit [OF pl at sp this, of w s] assms validateRef_result [of w r s]
    have "validateRef w r s = (Inr True, s') \<and>
           ref v = (if r = ''next'' then ''main''
                    else if r = ''latest'' then ''latest'' else ''astro@'' @ r)"
      by (cases "validateRef w r s") (auto split: sum.splits)
    with sp show "\<exists>template' ref' others.
           split (CHR ''@'') (path_of ctx) = template' # ref' # others \<and>
           validateRef w ref' s = (Inr True, s') \<and>
           ref v = (if ref' = ''next'' then ''main''
                    else if ref' = ''latest'' then ''latest'' else ''astro@'' @ ref')"
      by blast
  }
  assume root: "pathname ctx \<noteq> ''/''"
  show "examplesCache (snd (get w ctx s)) = examplesCache (snd (getExamples w (ref v) s'))"
    using root assms
    by (cases "getExamples w (ref v) s'")
      (auto simp add: get_def split: sum.splits option.splits)
  show "requests (snd (get w ctx s)) = requests (snd (getExamples w (ref v) s'))"
    using root assms
    by (cases "getExamples w (ref v) s'")
      (auto simp add: get_def split: sum.splits option.splits)
qed

theorem parseReq_listing_key_witness:
  "(\<exists>v s'. parseReq github_world
       \<lparr>pathname = ''/basics@1.0.0'', searchParams_on = None, rest = Some ''basics@1.0.0''\<rparr>
       init_state = (Inr v, s') \<and> ref v = ''astro@1.0.0'' \<and>
     validateRef github_world ''1.0.0'' init_state = (Inr True, s')) \<and>
   (\<exists>v s'. parseReq github_world
       \<lparr>pathname = ''/basics@next'', searchParams_on = None, rest = Some ''basics@next''\<rparr>
       init_state = (Inr v, s') \<and> ref v = ''main'') \<and>
   (\<exists>v s'. parseReq github_world
       \<lparr>pathname = ''/basics@latest'', searchParams_on = None, rest = Some ''basics@latest''\<rparr>
       init_state = (Inr v, s') \<and> ref v = ''latest'') \<and>
   (\<exists>v s'. parseReq github_world
       \<lparr>pathname = ''/basics'', searchParams_on = None, rest = Some ''basics''\<rparr>
       init_state = (Inr v, s') \<and> ref v = ''latest'')"
proof -
  let ?c1 = "\<lparr>pathname = ''/basics@1.0.0'', searchParams_on = None, rest = Some ''basics@1.0.0''\<rparr>"
  let ?c2 = "\<lparr>pathname = ''/basics@next'', searchParams_on = None, rest = Some ''basics@next''\<rparr>"
  let ?c3 = "\<lparr>pathname = ''/basics@latest'', searchParams_on = None, rest = Some ''basics@latest''\<rparr>"
  let ?c4 = "\<lparr>pathname = ''/basics'', searchParams_on = None, rest = Some ''basics''\<rparr>"
  obtain v1 s1 where p1: "parseReq github_world ?c1 init_state = (Inr v1, s1)"
    by (simp add: parseReq_def path_of_def isPlatform_def PLATFORMS_def validateRef_def
        getRelease_def init_state_def github_world_def)
  obtain v2 s2 where p2: "parseReq github_world ?c2 init_state = (Inr v2, s2)"
    by (simp add: parseReq_def path_of_def isPlatform_def PLATFORMS_def validateRef_def)
  obtain v3 s3 where p3: "parseReq github_world ?c3 init_state = (Inr v3, s3)"
    by (simp add: parseReq_def path_of_def isPlatform_def PLATFORMS_def validateRef_def)
  obtain v4 s4 where p4: "parseReq github_world ?c4 init_state = (Inr v4, s4)"
    by (simp add: parseReq_def path_of_def isPlatform_def PLATFORMS_def)
  from parseReq_listing_key [OF p1]
  have 1: "ref v1 = ''astro@1.0.0'' \<and> validateRef github_world ''1.0.0'' init_state = (Inr True, s1)"
    by (simp add: path_of_def)
  from parseReq_listing_key [OF p2] have 2: "ref v2 = ''main''"
    by (simp add: path_of_def)
  from parseReq_listing_key [OF p3] have 3: "ref v3 = ''latest''"
    by (simp add: path_of_def)
  from parseReq_listing_key [OF p4] have 4: "ref v4 = ''latest''"
    by (simp add: path_of_def)
  from p1 p2 p3 p4 1 2 3 4 show ?thesis by blast
qed

subsection \<open>The route\<close>

lemma get_parse_error:
  assumes "pathname ctx \<noteq> ''/''" and "parseReq w ctx s = (Inl e, s1)"
  shows "get w ctx s =
    (Response ''An internal error occurred'' 500, s1\<lparr>console := console s1 @ [ErrorThrown e]\<rparr>)"
  using assms by (simp add: get_def)

lemma get_listing_error:
  assumes "pathname ctx \<noteq> ''/''" and "parseReq w ctx s = (Inr v, s1)"
    and "getExamples w (ref v) s1 = (Inl e, s2)"
  shows "get w ctx s =
    (Response ''An internal error occurred'' 500, s2\<lparr>console := console s2 @ [ErrorThrown e]\<rparr>)"
  using assms by (simp add: get_def)

lemma get_not_found:
  assumes "pathname ctx \<noteq> ''/''" and "parseReq w ctx s = (Inr v, s1)"
    and "getExamples w (ref v) s1 = (Inr examples, s2)"
    and "template v \<notin> name ` set examples"
  shows "get w ctx s =
    (Response (''Unable to find '' @ template v
        @ ''! Supported templates are:'' @ [CHR 0x0A] @ ''  - ''
        @ join ([CHR 0x0A] @ ''  - '') (map (\<lambda>x. name x) examples)) 404, s2)"
proof -
  from assms(4) have "find (\<lambda>x. name x = template v) examples = None"
    by (force simp add: find_None_iff image_iff)
  with assms(1-3) show ?thesis by (simp add: get_def)
qed

lemma get_found:
  assumes "pathname ctx \<noteq> ''/''" and "parseReq w ctx s = (Inr v, s1)"
    and "getExamples w (ref v) s1 = (Inr examples, s2)"
    and "find (\<lambda>x. name x = template v) examples = Some example"
  shows "get w ctx s = (Redirect (property example (platform v)), s2)"
  using assms by (simp add: get_def)

text \<open>
  Claim C9. On any path but the root: when the request parses, the listing is fetched
  and no entry of the listing has the requested name, the route answers 404 with a
  body that contains the name of every entry of the listing; when the parser throws,
  or the listing fetch throws, whatever the error, the route logs the error and
  answers 500 with the body \<^verbatim>\<open>An internal error occurred\<close>.
\<close>

theorem get_not_found_or_internal_error:
  assumes "pathname ctx \<noteq> ''/''"
  shows "(\<forall>v s1 examples s2.
        parseReq w ctx s = (Inr v, s1) \<longrightarrow>
        getExamples w (ref v) s1 = (Inr examples, s2) \<longrightarrow>
        template v \<notin> name ` set examples \<longrightarrow>
        (\<exists>body. get w ctx s = (Response body 404, s2) \<and>
           (\<forall>x \<in> set examples. sublist (name x) body))) \<and>
     (\<forall>e s1. parseReq w ctx s = (Inl e, s1) \<longrightarrow>
        fst (get w ctx s) = Response ''An internal error occurred'' 500 \<and>
        last (console (snd (get w ctx s))) = ErrorThrown e) \<and>
     (\<forall>v s1 e s2.
        parseReq w ctx s = (Inr v, s1) \<longrightarrow>
        getExamples w (ref v) s1 = (Inl e, s2) \<longrightarrow>
        fst (get w ctx s) = Response ''An internal error occurred'' 500 \<and>
        last (console (snd (get w ctx s))) = ErrorThrown e)"
proof (intro conjI allI impI)
  fix v s1 examples s2
  assume p: "parseReq w ctx s = (Inr v, s1)"
    and g: "getExamples w (ref v) s1 = (Inr examples, s2)"
    and n: "template v \<notin> name ` set examples"
  let ?sep = "[CHR 0x0A] @ ''  - ''"
  let ?head = "''Unable to find '' @ template v
        @ ''! Supported templates are:'' @ [CHR 0x0A] @ ''  - ''"
  have "sublist (name x) (?head @ join ?sep (map (\<lambda>x. name x) examples))"
    if "x \<in> set examples" for x
  proof -
    from that have "sublist (name x) (join ?sep (map (\<lambda>x. name x) examples))"
      by (intro join_mentions) simp
    then show ?thesis
      by (rule sublist_order.order_trans) (rule sublist_append_leftI)
  qed
  with get_not_found [OF assms p g n]
  show "\<exists>body. get w ctx s = (Response body 404, s2) \<and>
           (\<forall>x \<in> set examples. sublist (name x) body)"
    by (simp only: append_assoc) blast
next
  fix e s1
  assume p: "parseReq w ctx s = (Inl e, s1)"
  from get_parse_error [OF assms p]
  show "fst (get w ctx s) = Response ''An internal error occurred'' 500"
    and "last (console (snd (get w ctx s))) = ErrorThrown e"
    by simp_all
next
  fix v s1 e s2
  assume p: "parseReq w ctx s = (Inr v, s1)"
    and g: "getExamples w (ref v) s1 = (Inl e, s2)"
  from get_listing_error [OF assms p g]
  show "fst (get w ctx s) = Response ''An internal error occurred'' 500"
    and "last (console (snd (get w ctx s))) = ErrorThrown e"
    by simp_all
qed

theorem get_not_found_or_internal_error_witness:
  "(\<exists>body. fst (get github_world
        \<lparr>pathname = ''/nonexistent'', searchParams_on = Some ''github'', rest = Some ''nonexistent''\<rparr>
        init_state) = Response body 404 \<and> sublist ''basics'' body) \<and>
   fst (get github_world
        \<lparr>pathname = ''/basics'', searchParams_on = Some ''vscode'', rest = Some ''basics''\<rparr>
        init_state) = Response ''An internal error occurred'' 500 \<and>
   fst (get github_world
        \<lparr>pathname = ''/basics@'', searchParams_on = None, rest = Some ''basics@''\<rparr>
        init_state) = Response ''An internal error occurred'' 500 \<and>
   fst (get github_world
        \<lparr>pathname = ''/basics@0.0.0'', searchParams_on = None, rest = Some ''basics@0.0.0''\<rparr>
        init_state) = Response ''An internal error occurred'' 500 \<and>
   fst (get limited_world
        \<lparr>pathname = ''/basics'', searchParams_on = None, rest = Some ''basics''\<rparr>
        init_state) = Response ''An internal error occurred'' 500"
proof -
  let ?a = "\<lparr>pathname = ''/nonexistent'', searchParams_on = Some ''github'', rest = Some ''nonexistent''\<rparr>"
  let ?b = "\<lparr>pathname = ''/basics'', searchParams_on = Some ''vscode'', rest = Some ''basics''\<rparr>"
  let ?c = "\<lparr>pathname = ''/basics@'', searchParams_on = None, rest = Some ''basics@''\<rparr>"
  let ?d = "\<lparr>pathname = ''/basics@0.0.0'', searchParams_on = None, rest = Some ''basics@0.0.0''\<rparr>"
  let ?e = "\<lparr>pathname = ''/basics'', searchParams_on = None, rest = Some ''basics''\<rparr>"
  let ?basics = "\<lparr>name = ''basics'', github = Some ''https://x/basics'', netlify = ''https://astro.build'',
      stackblitz = ''https://stackblitz.com/github/withastro/astro/tree/latest/examples/basics'',
      codesandbox = ''https://codesandbox.io/p/sandbox/github/withastro/astro/tree/latest/examples/basics'',
      gitpod = ''https://gitpod.io/#https://github.com/withastro/astro/tree/latest/examples/basics''\<rparr>"
  have ra: "pathname ?a \<noteq> ''/''" and rb: "pathname ?b \<noteq> ''/''" and rc: "pathname ?c \<noteq> ''/''"
    and rd: "pathname ?d \<noteq> ''/''" and re: "pathname ?e \<noteq> ''/''"
    by simp_all
  have pa: "parseReq github_world ?a init_state =
      (Inr \<lparr>ref = ''latest'', template = ''nonexistent'', platform = ''github''\<rparr>, init_state)"
    by (simp add: parseReq_def path_of_def isPlatform_def PLATFORMS_def)
  have ga: "getExamples github_world
       (ref \<lparr>ref = ''latest'', template = ''nonexistent'', platform = ''github''\<rparr>) init_state =
      (Inr [?basics], snd (getExamples github_world ''latest'' init_state))"
    by (simp add: getExamples_def Let_def init_state_def github_world_def flatMap_callback_def)
  have ma: "template \<lparr>ref = ''latest'', template = ''nonexistent'', platform = ''github''\<rparr>
      \<notin> name ` set [?basics]"
    by simp
  from get_not_found_or_internal_error [OF ra, of github_world init_state,
      THEN conjunct1, rule_format, OF pa ga ma]
  obtain body where "get github_world ?a init_state =
        (Response body 404, snd (getExamples github_world ''latest'' init_state))"
    and "\<forall>x \<in> set [?basics]. sublist (name x) body"
    by blast
  then have 1: "\<exists>body. fst (get github_world ?a init_state) = Response body 404 \<and> sublist ''basics'' body"
    by simp
  obtain eb sb where pb: "parseReq github_world ?b init_state = (Inl eb, sb)"
    by (simp add: parseReq_def path_of_def isPlatform_def PLATFORMS_def)
  from get_not_found_or_internal_error [OF rb, of github_world init_state,
      THEN conjunct2, THEN conjunct1, rule_format, OF pb]
  have 2: "fst (get github_world ?b init_state) = Response ''An internal error occurred'' 500"
    by blast
  have pc: "parseReq github_world ?c init_state = (Inl (Error ''why have you forsaken me''), init_state)"
    by (simp add: parseReq_def path_of_def isPlatform_def PLATFORMS_def)
  from get_not_found_or_internal_error [OF rc, of github_world init_state,
      THEN conjunct2, THEN conjunct1, rule_format, OF pc]
  have 3: "fst (get github_world ?c init_state) = Response ''An internal error occurred'' 500"
    by blast
  have "fst (parseReq github_world ?d init_state) \<noteq> Inr v" for v
    by (simp add: parseReq_def path_of_def isPlatform_def PLATFORMS_def validateRef_def
        getRelease_def init_state_def github_world_def)
  then obtain ed sd where pd: "parseReq github_world ?d init_state = (Inl ed, sd)"
    by (metis fst_conv surj_pair sum.exhaust)
  from get_not_found_or_internal_error [OF rd, of github_world init_state,
      THEN conjunct2, THEN conjunct1, rule_format, OF pd]
  have 4: "fst (get github_world ?d init_state) = Response ''An internal error occurred'' 500"
    by blast
  have pe: "parseReq limited_world ?e init_state =
      (Inr \<lparr>ref = ''latest'', template = ''basics'', platform = ''stackblitz''\<rparr>, init_state)"
    by (simp add: parseReq_def path_of_def isPlatform_def PLATFORMS_def)
  have ge: "getExamples limited_world
       (ref \<lparr>ref = ''latest'', template = ''basics'', platform = ''stackblitz''\<rparr>) init_state =
      (Inl (Error ''Unable to fetch templates from GitHub''),
       snd (getExamples limited_world ''latest'' init_state))"
    by (simp add: getExamples_def Let_def init_state_def limited_world_def)
  from get_not_found_or_internal_error [OF re, of limited_world init_state,
      THEN conjunct2, THEN conjunct2, rule_format, OF pe ge]
  have 5: "fst (get limited_world ?e init_state) = Response ''An internal error occurred'' 500"
    by blast
  from 1 2 3 4 5 show ?thesis by blast
qed

lemma parseReq_platform_member:
  assumes "parseReq w ctx s = (Inr v, s')"
  shows "platform v \<in> set PLATFORMS"
proof -
  let ?p = "case searchParams_on ctx of None \<Rightarrow> ''stackblitz'' | Some p \<Rightarrow> p"
  have pl: "isPlatform ?p"
  proof (rule ccontr)
    assume "\<not> ?thesis"
    from parseReq_unsupported [OF this, of w s] assms show False by auto
  qed
  have "platform v = ?p"
  proof (cases "CHR ''@'' \<in> set (path_of ctx)")
    case False
    from parseReq_no_at [OF pl False, of w s] assms show ?thesis by auto
  next
    case True
    from split_first_two [OF True] obtain t r others
      where sp: "split (CHR ''@'') (path_of ctx) = t # r # others" by blast
    show ?thesis
    proof (cases "r = [] \<or> t = []")
      case True
      from parseReq_malformed [OF pl \<open>CHR ''@'' \<in> set (path_of ctx)\<close> sp True, of w s] assms
      show ?thesis by simp
    next
      case False
      then have "r \<noteq> []" and "t \<noteq> []" by simp_all
      from parseReq_explicit [OF pl \<open>CHR ''@'' \<in> set (path_of ctx)\<close> sp this, of w s] assms
      show ?thesis by (auto split: prod.splits sum.splits)
    qed
  qed
  with pl show ?thesis by (simp add: isPlatform_def)
qed

lemma property_of_platform:
  "map (property example) PLATFORMS =
     [Some (stackblitz example), Some (codesandbox example), Some (netlify example),
      github example, Some (gitpod example)]"
  by (simp add: PLATFORMS_def property_def)

lemma flatMap_callback_copies_html_url:
  "x \<in> set (flatMap_callback r e) \<Longrightarrow> github x = html_url e"
  by (simp add: flatMap_callback_def split: if_splits)

lemma get_redirect:
  assumes "fst (get w ctx s) = Redirect target"
  shows "target = Some ''/latest'' \<or>
    (\<exists>v s1 examples s2 example.
       parseReq w ctx s = (Inr v, s1) \<and>
       getExamples w (ref v) s1 = (Inr examples, s2) \<and>
       find (\<lambda>x. name x = template v) examples = Some example \<and>
       target = property example (platform v))"
proof (cases "pathname ctx = ''/''")
  case True
  with assms show ?thesis by (simp add: get_def)
next
  case False
  show ?thesis
  proof (cases "parseReq w ctx s")
    case (Pair res s1)
    show ?thesis
    proof (cases res)
      case (Inl e)
      from get_parse_error [OF False Pair [unfolded Inl]] assms show ?thesis by simp
    next
      case (Inr v)
      note p = Pair [unfolded Inr]
      show ?thesis
      proof (cases "getExamples w (ref v) s1")
        case g: (Pair res2 s2)
        show ?thesis
        proof (cases res2)
          case (Inl e)
          from get_listing_error [OF False p g [unfolded Inl]] assms show ?thesis by simp
        next
          case (Inr examples)
          note g' = g [unfolded Inr]
          show ?thesis
          proof (cases "find (\<lambda>x. name x = template v) examples")
            case None
            with False p g' assms show ?thesis by (simp add: get_def)
          next
            case (Some example)
            from get_found [OF False p g' Some] assms p g' Some show ?thesis by auto
          qed
        qed
      qed
    qed
  qed
qed

text \<open>
  Claim C10, as amended. The platform of a parsed request is one of \<^verbatim>\<open>PLATFORMS\<close>.
  Under the keys \<^verbatim>\<open>stackblitz\<close>, \<^verbatim>\<open>codesandbox\<close>, \<^verbatim>\<open>netlify\<close> and
  \<^verbatim>\<open>gitpod\<close> a template entry holds a string; under \<^verbatim>\<open>github\<close> it holds what
  the upstream element had under \<^verbatim>\<open>html_url\<close>, copied without a check. So a
  redirect of the route is either the one of the root, or the request has parsed and
  found its template, and then the target is a string for every platform but
  \<^verbatim>\<open>github\<close>, and for \<^verbatim>\<open>github\<close> it is the \<^verbatim>\<open>github\<close> field of the entry
  found: a string exactly when that field holds one.
\<close>

theorem get_redirect_target:
  "(\<forall>v s'. parseReq w ctx s = (Inr v, s') \<longrightarrow> platform v \<in> set PLATFORMS) \<and>
   (\<forall>example. map (property example) PLATFORMS =
      [Some (stackblitz example), Some (codesandbox example), Some (netlify example),
       github example, Some (gitpod example)]) \<and>
   (\<forall>r e x. x \<in> set (flatMap_callback r e) \<longrightarrow> github x = html_url e) \<and>
   (\<forall>target. fst (get w ctx s) = Redirect target \<longrightarrow>
      target = Some ''/latest'' \<or>
      (\<exists>v s1 examples s2 example.
         parseReq w ctx s = (Inr v, s1) \<and>
         getExamples w (ref v) s1 = (Inr examples, s2) \<and>
         find (\<lambda>x. name x = template v) examples = Some example \<and>
         (platform v \<noteq> ''github'' \<longrightarrow> (\<exists>location. target = Some location)) \<and>
         (platform v = ''github'' \<longrightarrow> target = github example)))"
proof (intro conjI allI impI)
  fix v s'
  assume "parseReq w ctx s = (Inr v, s')"
  then show "platform v \<in> set PLATFORMS" by (rule parseReq_platform_member)
next
  fix example
  show "map (property example) PLATFORMS =
      [Some (stackblitz example), Some (codesandbox example), Some (netlify example),
       github example, Some (gitpod example)]"
    by (rule property_of_platform)
next
  fix r e x
  assume "x \<in> set (flatMap_callback r e)"
  then show "github x = html_url e" by (rule flatMap_callback_copies_html_url)
next
  fix target
  assume "fst (get w ctx s) = Redirect target"
  from get_redirect [OF this]
  show "target = Some ''/latest'' \<or>
      (\<exists>v s1 examples s2 example.
         parseReq w ctx s = (Inr v, s1) \<and>
         getExamples w (ref v) s1 = (Inr examples, s2) \<and>
         find (\<lambda>x. name x = template v) examples = Some example \<and>
         (platform v \<noteq> ''github'' \<longrightarrow> (\<exists>location. target = Some location)) \<and>
         (platform v = ''github'' \<longrightarrow> target = github example))"
  proof
    assume "target = Some ''/latest''"
    then show ?thesis by blast
  next
    assume "\<exists>v s1 examples s2 example.
       parseReq w ctx s = (Inr v, s1) \<and>
       getExamples w (ref v) s1 = (Inr examples, s2) \<and>
       find (\<lambda>x. name x = template v) examples = Some example \<and>
       target = property example (platform v)"
    then obtain v s1 examples s2 example where p: "parseReq w ctx s = (Inr v, s1)"
      and g: "getExamples w (ref v) s1 = (Inr examples, s2)"
      and f: "find (\<lambda>x. name x = template v) examples = Some example"
      and t: "target = property example (platform v)" by blast
    from parseReq_platform_member [OF p]
    have other: "platform v \<noteq> ''github'' \<longrightarrow> (\<exists>location. property example (platform v) = Some location)"
      by (auto simp add: PLATFORMS_def property_def)
    have gh: "platform v = ''github'' \<longrightarrow> property example (platform v) = github example"
      by (simp add: property_def)
    from p g f t other gh show ?thesis by blast
  qed
qed

theorem get_redirect_target_witness:
  "fst (get github_world
     \<lparr>pathname = ''/basics@next'', searchParams_on = Some ''gitpod'', rest = Some ''basics@next''\<rparr>
     init_state)
   = Redirect (Some ''https://gitpod.io/#https://github.com/withastro/astro/tree/main/examples/basics'')
   \<and> platform \<lparr>ref = ''main'', template = ''basics'', platform = ''gitpod''\<rparr> \<in> set PLATFORMS
   \<and> fst (get github_world
     \<lparr>pathname = ''/basics'', searchParams_on = Some ''github'', rest = Some ''basics''\<rparr>
     init_state)
   = Redirect (Some ''https://x/basics'')"
proof -
  let ?c = "\<lparr>pathname = ''/basics@next'', searchParams_on = Some ''gitpod'', rest = Some ''basics@next''\<rparr>"
  let ?v = "\<lparr>ref = ''main'', template = ''basics'', platform = ''gitpod''\<rparr>"
  let ?basics = "\<lparr>name = ''basics'', github = Some ''https://x/basics'', netlify = ''https://astro.build'',
      stackblitz = ''https://stackblitz.com/github/withastro/astro/tree/main/examples/basics'',
      codesandbox = ''https://codesandbox.io/p/sandbox/github/withastro/astro/tree/main/examples/basics'',
      gitpod = ''https://gitpod.io/#https://github.com/withastro/astro/tree/main/examples/basics''\<rparr>"
  let ?d = "\<lparr>pathname = ''/basics'', searchParams_on = Some ''github'', rest = Some ''basics''\<rparr>"
  let ?u = "\<lparr>ref = ''latest'', template = ''basics'', platform = ''github''\<rparr>"
  let ?latest = "\<lparr>name = ''basics'', github = Some ''https://x/basics'', netlify = ''https://astro.build'',
      stackblitz = ''https://stackblitz.com/github/withastro/astro/tree/latest/examples/basics'',
      codesandbox = ''https://codesandbox.io/p/sandbox/github/withastro/astro/tree/latest/examples/basics'',
      gitpod = ''https://gitpod.io/#https://github.com/withastro/astro/tree/latest/examples/basics''\<rparr>"
  have r: "pathname ?c \<noteq> ''/''" and r': "pathname ?d \<noteq> ''/''"
    by simp_all
  have p: "parseReq github_world ?c init_state = (Inr ?v, init_state)"
    by (simp add: parseReq_def path_of_def isPlatform_def PLATFORMS_def validateRef_def)
  have g: "getExamples github_world (ref ?v) init_state =
      (Inr [?basics], snd (getExamples github_world ''main'' init_state))"
    by (simp add: getExamples_def Let_def init_state_def github_world_def flatMap_callback_def)
  have f: "find (\<lambda>x. name x = template ?v) [?basics] = Some ?basics"
    by simp
  from get_found [OF r p g f]
  have t: "fst (get github_world ?c init_state) = Redirect (property ?basics ''gitpod'')"
    by simp
  from get_redirect_target [of github_world ?c init_state] p
  have m: "platform ?v \<in> set PLATFORMS"
    and e: "\<And>example. map (property example) PLATFORMS =
      [Some (stackblitz example), Some (codesandbox example), Some (netlify example),
       github example, Some (gitpod example)]"
    by blast+
  from e [of ?basics] have 1: "property ?basics ''gitpod'' = Some (gitpod ?basics)"
    by (simp add: PLATFORMS_def)
  have p': "parseReq github_world ?d init_state = (Inr ?u, init_state)"
    by (simp add: parseReq_def path_of_def isPlatform_def PLATFORMS_def)
  have g': "getExamples github_world (ref ?u) init_state =
      (Inr [?latest], snd (getExamples github_world ''latest'' init_state))"
    by (simp add: getExamples_def Let_def init_state_def github_world_def flatMap_callback_def)
  have f': "find (\<lambda>x. name x = template ?u) [?latest] = Some ?latest"
    by simp
  from get_found [OF r' p' g' f']
  have t': "fst (get github_world ?d init_state) = Redirect (property ?latest ''github'')"
    by simp
  from e [of ?latest] have 2: "property ?latest ''github'' = github ?latest"
    by (simp add: PLATFORMS_def)
  from t m 1 t' 2 show ?thesis by simp
qed

text \<open>
  Claim C10 as it was stated fails on an upstream directory without
  \<^verbatim>\<open>html_url\<close>: the request for it on \<^verbatim>\<open>github\<close> parses, finds its template in
  the listing, and redirects to \<^verbatim>\<open>undefined\<close>.
\<close>

theorem get_redirect_undefined_counterexample:
  "parseReq bare_world
     \<lparr>pathname = ''/basics'', searchParams_on = Some ''github'', rest = Some ''basics''\<rparr>
     init_state
     = (Inr \<lparr>ref = ''latest'', template = ''basics'', platform = ''github''\<rparr>, init_state) \<and>
   fst (getExamples bare_world ''latest'' init_state) =
     Inr [\<lparr>name = ''basics'', github = None, netlify = ''https://astro.build'',
           stackblitz = ''https://stackblitz.com/github/withastro/astro/tree/latest/examples/basics'',
           codesandbox = ''https://codesandbox.io/p/sandbox/github/withastro/astro/tree/latest/examples/basics'',
           gitpod = ''https://gitpod.io/#https://github.com/withastro/astro/tree/latest/examples/basics''\<rparr>] \<and>
   fst (get bare_world
     \<lparr>pathname = ''/basics'', searchParams_on = Some ''github'', rest = Some ''basics''\<rparr>
     init_state)
     = Redirect None"
  by (simp add: get_def parseReq_def path_of_def isPlatform_def PLATFORMS_def
      getExamples_def Let_def init_state_def bare_world_def flatMap_callback_def property_def)

end
